theory Spec2Isabelle
  imports Main "HOL-Library.Word" "HOL-Library.Monad_Syntax"
begin

unbundle bit_operations_syntax

section \<open>Storage core of the SUCHAI flight software: status table, flight plan, payloads\<close>

text \<open>
  The model follows \<^verbatim>\<open>storage_flash.c\<close> (the FLASH storage back-end, with the TLB kept in
  FRAM, \<^verbatim>\<open>ST_FP_TLB_FRAM\<close>) and \<^verbatim>\<open>repoData.c\<close> (the repository layer on top of it).

  \<^item> Global variables of the C files are the fields of the record \<open>storage\<close>; every function
    takes the state and returns the new one.
  \<^item> The media are the two arrays of the hosted build (\<^verbatim>\<open>flash\<close>, \<^verbatim>\<open>fram\<close>), read and written
    with \<^verbatim>\<open>memcpy\<close>: byte memories with a size.
  \<^item> A function returns \<open>None\<close> where the C program has no defined behaviour: an access outside
    one of its arrays or through a \<^verbatim>\<open>NULL\<close> table. \<open>Some (rc, s)\<close> is a normal return with the
    C return code \<open>rc\<close>.
  \<^item> Values that are stored (times, addresses in the TLB, status values) are 32-bit words; indexes
    and sizes that only steer the control flow are unbounded integers.
  \<^item> The semaphore calls and the log macros have no effect on the stored data and are left out.
\<close>

subsection \<open>Constants and configuration\<close>

type_synonym byte = "8 word"
type_synonym value32_t = "32 word"

abbreviation (input) SCH_ST_OK :: int where "SCH_ST_OK \<equiv> 0"
abbreviation (input) SCH_ST_ERROR :: int where "SCH_ST_ERROR \<equiv> - 1"
abbreviation (input) ST_FP_NULL :: "32 word" where "ST_FP_NULL \<equiv> - 1"
abbreviation (input) ST_PAGE_SIZE :: int where "ST_PAGE_SIZE \<equiv> 512"
abbreviation (input) ST_FRAM_SIZE :: int where "ST_FRAM_SIZE \<equiv> 32768"
abbreviation (input) ST_CMD_MAX_STR_PARAMS :: nat where "ST_CMD_MAX_STR_PARAMS \<equiv> 248"
abbreviation (input) ST_CMD_MAX_STR_NAME :: nat where "ST_CMD_MAX_STR_NAME \<equiv> 248"

text \<open>\<^verbatim>\<open>sizeof(fp_container_t)\<close>: four 32-bit fields and two strings of 248 bytes; the code
  asserts that it is 512. \<^verbatim>\<open>sizeof(fp_addr_t)\<close>: two 32-bit fields.\<close>

abbreviation (input) FP_CONTAINER_SIZE :: int where "FP_CONTAINER_SIZE \<equiv> 512"
abbreviation (input) sizeof_fp_addr_t :: int where "sizeof_fp_addr_t \<equiv> 8"

text \<open>The macros and enumeration constants that the two files use and that are defined in
  headers outside the sources at hand. They are parameters of the model.\<close>

record config =
  SCH_FP_MAX_ENTRIES :: nat
  SCH_SIZE_PER_SECTION :: int
  SCH_SECTIONS_PER_PAYLOAD :: int
  SCH_FLASH_INIT_MEMORY :: int
  SCH_COMM_NODE :: "32 word"
  SCH_STORAGE_TRIPLE_WR :: bool
  dat_status_last_address :: int
  dat_status_last_var :: int
  dat_fpl_queue :: int

text \<open>C division and remainder truncate towards zero.\<close>

definition c_div :: "int \<Rightarrow> int \<Rightarrow> int" where
  "c_div a b = sgn a * sgn b * (\<bar>a\<bar> div \<bar>b\<bar>)"

definition c_mod :: "int \<Rightarrow> int \<Rightarrow> int" where
  "c_mod a b = a - b * c_div a b"

text \<open>Division by zero has no defined behaviour.\<close>

definition int_div :: "int \<Rightarrow> int \<Rightarrow> int option" where
  "int_div a b = (if b = 0 then None else Some (c_div a b))"

definition int_rem :: "int \<Rightarrow> int \<Rightarrow> int option" where
  "int_rem a b = (if b = 0 then None else Some (c_mod a b))"

text \<open>\<^verbatim>\<open>static int commands_per_section = SCH_SIZE_PER_SECTION / FP_CONTAINER_SIZE;\<close>\<close>

definition commands_per_section :: "config \<Rightarrow> int" where
  "commands_per_section cfg = c_div (SCH_SIZE_PER_SECTION cfg) FP_CONTAINER_SIZE"

subsection \<open>Byte memories\<close>

type_synonym mem = "int \<Rightarrow> byte"

definition read_mem :: "mem \<Rightarrow> int \<Rightarrow> nat \<Rightarrow> byte list" where
  "read_mem m a n = map (\<lambda>k. m (a + int k)) [0..<n]"

definition write_mem :: "mem \<Rightarrow> int \<Rightarrow> byte list \<Rightarrow> mem" where
  "write_mem m a bs = (\<lambda>x. if a \<le> x \<and> x < a + int (length bs) then bs ! nat (x - a) else m x)"

text \<open>A 32-bit value in memory, least significant byte first (the hosted build).\<close>

definition le32 :: "32 word \<Rightarrow> byte list" where
  "le32 w = [ucast w, ucast (drop_bit 8 w), ucast (drop_bit 16 w), ucast (drop_bit 24 w)]"

definition of_le32 :: "byte list \<Rightarrow> 32 word" where
  "of_le32 bs = (case bs of
      [b0, b1, b2, b3] \<Rightarrow>
        ucast b0 OR push_bit 8 (ucast b1) OR push_bit 16 (ucast b2) OR push_bit 24 (ucast b3)
    | _ \<Rightarrow> 0)"

subsection \<open>State\<close>

text \<open>\<^verbatim>\<open>fp_addr_t\<close>, one slot of the TLB.\<close>

record fp_addr_t =
  addr :: "32 word"
  unixtime :: "32 word"

text \<open>The operations that change the flash, in the order they were made. The log is not a
  variable of the program: it records the calls of \<^verbatim>\<open>storage_write_flash\<close> and
  \<^verbatim>\<open>storage_erase_flash\<close>.\<close>

datatype flash_op = FlashWrite int nat | FlashErase int

record storage =
  storage_is_open :: bool
  st_flightplan_addr :: "int list option"
  st_flightplan_base_addr :: int
  st_flightplan_sections :: int
  st_flightplan_entries :: int
  st_flightplan_tlb_base_addr :: int
  st_flightplan_tlb :: "fp_addr_t list"
  st_payload_addr :: "int list option"
  st_payload_sections :: int
  st_payloads_entries :: int
  st_payload_base_addr :: int
  flash :: mem
  fram :: mem
  heap_junk :: mem
  flash_log :: "flash_op list"

text \<open>\<open>st_flightplan_addr\<close> and \<open>st_payload_addr\<close> are \<^verbatim>\<open>NULL\<close> (\<open>None\<close>) or a table made by
  \<^verbatim>\<open>malloc\<close>. \<open>heap_junk\<close> is what a fresh \<^verbatim>\<open>malloc\<close> buffer holds before it is written.\<close>

subsection \<open>Media back-end (hosted build: two arrays)\<close>

text \<open>\<^verbatim>\<open>static char flash[256][SCH_SIZE_PER_SECTION]\<close>\<close>

definition flash_size :: "config \<Rightarrow> int" where
  "flash_size cfg = 256 * SCH_SIZE_PER_SECTION cfg"

definition storage_read_flash :: "config \<Rightarrow> int \<Rightarrow> nat \<Rightarrow> storage \<Rightarrow> (int \<times> byte list) option" where
  "storage_read_flash cfg a len s =
     (if 0 \<le> a \<and> a + int len \<le> flash_size cfg
      then Some (SCH_ST_OK, read_mem (flash s) a len) else None)"

definition storage_write_flash :: "config \<Rightarrow> int \<Rightarrow> byte list \<Rightarrow> storage \<Rightarrow> (int \<times> storage) option" where
  "storage_write_flash cfg a bs s =
     (if 0 \<le> a \<and> a + int (length bs) \<le> flash_size cfg
      then Some (SCH_ST_OK, s\<lparr>flash := write_mem (flash s) a bs,
                                flash_log := flash_log s @ [FlashWrite a (length bs)]\<rparr>)
      else None)"

definition storage_erase_flash :: "config \<Rightarrow> int \<Rightarrow> storage \<Rightarrow> (int \<times> storage) option" where
  "storage_erase_flash cfg a s =
     (let section = c_div a (SCH_SIZE_PER_SECTION cfg);
          a' = section * SCH_SIZE_PER_SECTION cfg
      in if 0 \<le> a' \<and> a' + SCH_SIZE_PER_SECTION cfg \<le> flash_size cfg
         then Some (SCH_ST_OK,
                s\<lparr>flash := write_mem (flash s) a' (replicate (nat (SCH_SIZE_PER_SECTION cfg)) 0),
                  flash_log := flash_log s @ [FlashErase a]\<rparr>)
         else None)"

text \<open>The FRAM array is declared with \<^verbatim>\<open>ST_FRAME_SIZE\<close>, which the sources at hand do not
  define; the model takes it to be \<^verbatim>\<open>ST_FRAM_SIZE\<close>, the size the TLB address is computed from.\<close>

definition storage_write_fram :: "int \<Rightarrow> byte list \<Rightarrow> storage \<Rightarrow> (int \<times> storage) option" where
  "storage_write_fram add bs s =
     (if 0 \<le> add \<and> add + int (length bs) \<le> ST_FRAM_SIZE
      then Some (SCH_ST_OK, s\<lparr>fram := write_mem (fram s) add bs\<rparr>) else None)"

definition storage_read_fram :: "int \<Rightarrow> nat \<Rightarrow> storage \<Rightarrow> (int \<times> byte list) option" where
  "storage_read_fram add len s =
     (if 0 \<le> add \<and> add + int len \<le> ST_FRAM_SIZE
      then Some (SCH_ST_OK, read_mem (fram s) add len) else None)"

subsection \<open>Status variables\<close>

text \<open>\<^verbatim>\<open>uint16_t add = (uint16_t)(index*sizeof(value32_t))\<close>. The index of the getter is a
  \<^verbatim>\<open>uint32_t\<close>.\<close>

definition storage_status_get_value_idx :: "int \<Rightarrow> storage \<Rightarrow> (int \<times> value32_t) option" where
  "storage_status_get_value_idx index s =
     (let add = ((index mod 2 ^ 32) * 4) mod 2 ^ 16
      in do { (rc, bs) \<leftarrow> storage_read_fram add 4 s; Some (rc, of_le32 bs) })"

definition storage_status_set_value_idx :: "int \<Rightarrow> value32_t \<Rightarrow> storage \<Rightarrow> (int \<times> storage) option" where
  "storage_status_set_value_idx index val s =
     (let add = (index * 4) mod 2 ^ 16
      in storage_write_fram add (le32 val) s)"

text \<open>\<^verbatim>\<open>_dat_set_system_var\<close> and \<^verbatim>\<open>_dat_get_system_var\<close>: one physical slot, no copies.\<close>

definition dat_set_system_var_single :: "int \<Rightarrow> value32_t \<Rightarrow> storage \<Rightarrow> (int \<times> storage) option" where
  "dat_set_system_var_single index val s = storage_status_set_value_idx index val s"

definition dat_get_system_var_single :: "int \<Rightarrow> storage \<Rightarrow> value32_t option" where
  "dat_get_system_var_single index s =
     do { (rc, v) \<leftarrow> storage_status_get_value_idx index s; Some v }"

definition dat_set_status_var :: "config \<Rightarrow> int \<Rightarrow> value32_t \<Rightarrow> storage \<Rightarrow> (int \<times> storage) option" where
  "dat_set_status_var cfg index val s =
     do {
       (rc, s1) \<leftarrow> storage_status_set_value_idx index val s;
       if SCH_STORAGE_TRIPLE_WR cfg then
         do {
           (rc2, s2) \<leftarrow> storage_status_set_value_idx (index + dat_status_last_address cfg) val s1;
           (rc3, s3) \<leftarrow> storage_status_set_value_idx (index + dat_status_last_address cfg * 2) val s2;
           Some (rc OR rc2 OR rc3, s3)
         }
       else Some (rc, s1)
     }"

definition dat_get_status_var :: "config \<Rightarrow> int \<Rightarrow> storage \<Rightarrow> value32_t option" where
  "dat_get_status_var cfg index s =
     do {
       (rc1, value_1) \<leftarrow> storage_status_get_value_idx index s;
       if SCH_STORAGE_TRIPLE_WR cfg then
         do {
           (rc2, value_2) \<leftarrow> storage_status_get_value_idx (index + dat_status_last_var cfg) s;
           (rc3, value_3) \<leftarrow> storage_status_get_value_idx (index + dat_status_last_var cfg * 2) s;
           if value_1 = value_2 \<or> value_1 = value_3 then Some value_1
           else if value_2 = value_3 then Some value_2
           else Some value_1
         }
       else Some value_1
     }"

definition dat_set_system_var :: "config \<Rightarrow> int \<Rightarrow> value32_t \<Rightarrow> storage \<Rightarrow> (int \<times> storage) option" where
  "dat_set_system_var cfg index val s = dat_set_status_var cfg index val s"

definition dat_get_system_var :: "config \<Rightarrow> int \<Rightarrow> storage \<Rightarrow> value32_t option" where
  "dat_get_system_var cfg index s = dat_get_status_var cfg index s"

text \<open>The value held by the physical slot \<open>j\<close> of the status table in a FRAM image.\<close>

definition slot :: "mem \<Rightarrow> int \<Rightarrow> 32 word" where
  "slot m j = of_le32 (read_mem m (j * 4) 4)"

subsection \<open>Flight plan: the TLB\<close>

text \<open>A value assigned to a \<^verbatim>\<open>uint32_t\<close>.\<close>

definition u32 :: "int \<Rightarrow> int" where
  "u32 x = x mod 2 ^ 32"

text \<open>The bytes of one \<^verbatim>\<open>fp_addr_t\<close> and of the whole table.\<close>

definition tlb_entry_bytes :: "fp_addr_t \<Rightarrow> byte list" where
  "tlb_entry_bytes e = le32 (addr e) @ le32 (unixtime e)"

definition tlb_entry_of_bytes :: "byte list \<Rightarrow> fp_addr_t" where
  "tlb_entry_of_bytes bs = \<lparr>addr = of_le32 (take 4 bs), unixtime = of_le32 (take 4 (drop 4 bs))\<rparr>"

definition sizeof_tlb :: "config \<Rightarrow> int" where
  "sizeof_tlb cfg = sizeof_fp_addr_t * (int (SCH_FP_MAX_ENTRIES cfg) + 1)"

definition tlb_addr_start :: "config \<Rightarrow> int" where
  "tlb_addr_start cfg = u32 (ST_FRAM_SIZE - sizeof_tlb cfg)"

text \<open>An element of one of the C arrays; outside the array the access is undefined.\<close>

definition array_get :: "'a list \<Rightarrow> int \<Rightarrow> 'a option" where
  "array_get xs i = (if 0 \<le> i \<and> i < int (length xs) then Some (xs ! nat i) else None)"

definition table_get :: "int list option \<Rightarrow> int \<Rightarrow> int option" where
  "table_get t i = (case t of None \<Rightarrow> None | Some xs \<Rightarrow> array_get xs i)"

definition storage_flightplan_load_tlb :: "config \<Rightarrow> storage \<Rightarrow> (int \<times> storage) option" where
  "storage_flightplan_load_tlb cfg s =
     do {
       (rc, bs) \<leftarrow> storage_read_fram (tlb_addr_start cfg) (nat (sizeof_tlb cfg)) s;
       Some (rc, s\<lparr>st_flightplan_tlb :=
                     map (\<lambda>k. tlb_entry_of_bytes (take 8 (drop (8 * k) bs)))
                         [0..<Suc (SCH_FP_MAX_ENTRIES cfg)]\<rparr>)
     }"

definition storage_flightplan_dump_tlb :: "config \<Rightarrow> int \<Rightarrow> storage \<Rightarrow> (int \<times> storage) option" where
  "storage_flightplan_dump_tlb cfg index s =
     (if index < 0 then
        storage_write_fram (tlb_addr_start cfg) (concat (map tlb_entry_bytes (st_flightplan_tlb s))) s
      else
        do {
          e \<leftarrow> array_get (st_flightplan_tlb s) index;
          storage_write_fram (u32 (tlb_addr_start cfg + index * sizeof_fp_addr_t)) (tlb_entry_bytes e) s
        })"

definition storage_flightplan_update_tlb ::
    "config \<Rightarrow> int \<Rightarrow> 32 word \<Rightarrow> 32 word \<Rightarrow> storage \<Rightarrow> (int \<times> storage) option" where
  "storage_flightplan_update_tlb cfg index ut a s =
     (let n = SCH_FP_MAX_ENTRIES cfg in
      if \<not> (0 \<le> index \<and> index < int (length (st_flightplan_tlb s))) then None
      else
        do {
          let tlb1 = (st_flightplan_tlb s)[nat index := \<lparr>addr = a, unixtime = ut\<rparr>];
          last \<leftarrow> array_get tlb1 (int n);
          let tlb2 = tlb1[n := last\<lparr>addr := 1 + addr last\<rparr>];
          (rc, s1) \<leftarrow> storage_flightplan_dump_tlb cfg index (s\<lparr>st_flightplan_tlb := tlb2\<rparr>);
          if rc = SCH_ST_OK then storage_flightplan_dump_tlb cfg (int n) s1
          else Some (rc, s1)
        })"

definition storage_flightplan_find_index_tlb :: "config \<Rightarrow> 32 word \<Rightarrow> storage \<Rightarrow> int option" where
  "storage_flightplan_find_index_tlb cfg ut s =
     (if length (st_flightplan_tlb s) < SCH_FP_MAX_ENTRIES cfg then None
      else case find (\<lambda>i. unixtime (st_flightplan_tlb s ! i) = ut) [0..<SCH_FP_MAX_ENTRIES cfg] of
             Some i \<Rightarrow> Some (int i)
           | None \<Rightarrow> Some (- 1))"

definition flight_plan_erase_index_tlb :: "config \<Rightarrow> int \<Rightarrow> storage \<Rightarrow> (int \<times> storage) option" where
  "flight_plan_erase_index_tlb cfg index s =
     (if index < 0 \<or> index \<ge> st_flightplan_entries s then Some (- 1, s)
      else if \<not> index < int (length (st_flightplan_tlb s)) then None
      else storage_flightplan_dump_tlb cfg index
             (s\<lparr>st_flightplan_tlb :=
                   (st_flightplan_tlb s)[nat index := \<lparr>addr = ST_FP_NULL, unixtime = ST_FP_NULL\<rparr>]\<rparr>))"

subsection \<open>Flight plan: entries\<close>

text \<open>\<^verbatim>\<open>fp_entry_t\<close>: the four numbers and the two C strings of a command. A string is the bytes
  before its terminating zero.\<close>

record fp_entry_t =
  fp_unixtime :: "32 word"
  executions :: "32 word"
  periodical :: "32 word"
  node :: "32 word"
  cmd :: "byte list"
  args :: "byte list"

text \<open>\<^verbatim>\<open>memset(dst, 0, n); strncpy(dst, src, n)\<close>\<close>

definition strncpy_field :: "nat \<Rightarrow> byte list \<Rightarrow> byte list" where
  "strncpy_field n src =
     (let str = take n (takeWhile (\<lambda>b. b \<noteq> 0) src) in str @ replicate (n - length str) 0)"

text \<open>\<^verbatim>\<open>strdup\<close> of a string that starts inside a buffer: the bytes up to the first zero;
  undefined when no zero follows inside the buffer.\<close>

definition strdup_in :: "byte list \<Rightarrow> byte list option" where
  "strdup_in bs = (if 0 \<in> set bs then Some (takeWhile (\<lambda>b. b \<noteq> 0) bs) else None)"

definition fp_container_bytes :: "fp_entry_t \<Rightarrow> byte list" where
  "fp_container_bytes row =
     le32 (fp_unixtime row) @ le32 (executions row) @ le32 (periodical row) @ le32 (node row)
     @ strncpy_field ST_CMD_MAX_STR_PARAMS (cmd row) @ strncpy_field ST_CMD_MAX_STR_NAME (args row)"

definition flight_plan_rebuild_step ::
    "config \<Rightarrow> byte list \<Rightarrow> int \<Rightarrow> nat \<Rightarrow> int \<times> storage \<Rightarrow> (int \<times> storage) option" where
  "flight_plan_rebuild_step cfg fp_entries addr0 index_tlb acc =
     (case acc of (rc, s) \<Rightarrow>
      do {
        e \<leftarrow> array_get (st_flightplan_tlb s) (int index_tlb);
        if unixtime e \<noteq> ST_FP_NULL then
          do {
            let old_index_flash = uint (addr e - word_of_int addr0) div FP_CONTAINER_SIZE;
            fp_entry \<leftarrow> (if (old_index_flash + 1) * FP_CONTAINER_SIZE \<le> int (length fp_entries)
                         then Some (take 512 (drop (nat (old_index_flash * FP_CONTAINER_SIZE)) fp_entries))
                         else None);
            last \<leftarrow> array_get (st_flightplan_tlb s) (int (SCH_FP_MAX_ENTRIES cfg));
            let new_index_flash = sint (addr last);
            section_index \<leftarrow> int_div new_index_flash (commands_per_section cfg);
            index_in_section \<leftarrow> int_rem new_index_flash (commands_per_section cfg);
            base \<leftarrow> table_get (st_flightplan_addr s) section_index;
            let new_addr = u32 (base + index_in_section * FP_CONTAINER_SIZE);
            (rc1, s1) \<leftarrow> storage_flightplan_update_tlb cfg (int index_tlb) (unixtime e) (word_of_int new_addr) s;
            (rc2, s2) \<leftarrow> storage_write_flash cfg new_addr fp_entry s1;
            Some (rc + rc1 + rc2, s2)
          }
        else Some (rc, s)
      })"

fun flight_plan_rebuild_loop ::
    "config \<Rightarrow> byte list \<Rightarrow> int \<Rightarrow> nat list \<Rightarrow> int \<times> storage \<Rightarrow> (int \<times> storage) option" where
  "flight_plan_rebuild_loop cfg fp_entries addr0 [] acc = Some acc"
| "flight_plan_rebuild_loop cfg fp_entries addr0 (i # is) acc =
     do {
       acc' \<leftarrow> flight_plan_rebuild_step cfg fp_entries addr0 i acc;
       flight_plan_rebuild_loop cfg fp_entries addr0 is acc'
     }"

text \<open>\<^verbatim>\<open>flight_plan_rebuild_tlb\<close>. The length given to \<^verbatim>\<open>storage_read_flash\<close> is a
  \<^verbatim>\<open>uint16_t\<close>; the rest of the buffer keeps what \<^verbatim>\<open>malloc\<close> returned. The model takes
  \<^verbatim>\<open>malloc\<close> to succeed.\<close>

definition flight_plan_rebuild_tlb :: "config \<Rightarrow> storage \<Rightarrow> (int \<times> storage) option" where
  "flight_plan_rebuild_tlb cfg s =
     do {
       let size = nat (commands_per_section cfg * FP_CONTAINER_SIZE);
       let len = size mod 2 ^ 16;
       addr0 \<leftarrow> table_get (st_flightplan_addr s) 0;
       (rc1, bs) \<leftarrow> storage_read_flash cfg addr0 len s;
       let fp_entries = bs @ read_mem (heap_junk s) (int len) (size - len);
       (rc2, s1) \<leftarrow> storage_erase_flash cfg addr0 s;
       last \<leftarrow> array_get (st_flightplan_tlb s1) (int (SCH_FP_MAX_ENTRIES cfg));
       let s2 = s1\<lparr>st_flightplan_tlb :=
                     (st_flightplan_tlb s1)[SCH_FP_MAX_ENTRIES cfg := \<lparr>addr = 0, unixtime = 0\<rparr>]\<rparr>;
       (rc3, s3) \<leftarrow> flight_plan_rebuild_loop cfg fp_entries addr0 [0..<SCH_FP_MAX_ENTRIES cfg]
                      (rc1 + rc2, s2);
       (rc4, s4) \<leftarrow> storage_flightplan_dump_tlb cfg (- 1) s3;
       Some (rc3 + rc4, s4)
     }"

text \<open>\<^verbatim>\<open>storage_flight_plan_set_st\<close>, in two parts. The second part is the code after the check
  for space: it takes the first free slot of the TLB, computes the address from the counter,
  updates the TLB and then writes the page.\<close>

definition storage_flight_plan_set_st_place :: "config \<Rightarrow> fp_entry_t \<Rightarrow> storage \<Rightarrow> (int \<times> storage) option" where
  "storage_flight_plan_set_st_place cfg r s1 =
     do {
       index_tlb \<leftarrow> storage_flightplan_find_index_tlb cfg ST_FP_NULL s1;
       if index_tlb = - 1 \<or> index_tlb \<ge> st_flightplan_entries s1 then Some (SCH_ST_ERROR, s1)
       else
         do {
           last \<leftarrow> array_get (st_flightplan_tlb s1) (int (SCH_FP_MAX_ENTRIES cfg));
           let index_flash = sint (addr last);
           section_index \<leftarrow> int_div index_flash (commands_per_section cfg);
           index_in_section \<leftarrow> int_rem index_flash (commands_per_section cfg);
           base \<leftarrow> table_get (st_flightplan_addr s1) section_index;
           let a = u32 (base + index_in_section * FP_CONTAINER_SIZE);
           let new_entry = fp_container_bytes r;
           (rc, s2) \<leftarrow> storage_flightplan_update_tlb cfg index_tlb (fp_unixtime r) (word_of_int a) s1;
           if rc = SCH_ST_OK then storage_write_flash cfg a new_entry s2
           else Some (rc, s2)
         }
     }"

definition storage_flight_plan_set_st :: "config \<Rightarrow> fp_entry_t option \<Rightarrow> storage \<Rightarrow> (int \<times> storage) option" where
  "storage_flight_plan_set_st cfg row s =
     (case row of None \<Rightarrow> Some (SCH_ST_ERROR, s) | Some r \<Rightarrow>
      if \<not> storage_is_open s then Some (SCH_ST_ERROR, s)
      else
        do {
          last0 \<leftarrow> array_get (st_flightplan_tlb s) (int (SCH_FP_MAX_ENTRIES cfg));
          s1 \<leftarrow> (if uint (addr last0) > u32 (commands_per_section cfg)
                 then map_option snd (flight_plan_rebuild_tlb cfg s) else Some s);
          storage_flight_plan_set_st_place cfg r s1
        })"

definition storage_flight_plan_set ::
    "config \<Rightarrow> 32 word \<Rightarrow> byte list option \<Rightarrow> byte list option \<Rightarrow> 32 word \<Rightarrow> 32 word \<Rightarrow> 32 word
      \<Rightarrow> storage \<Rightarrow> (int \<times> storage) option" where
  "storage_flight_plan_set cfg timetodo command arguments execs period nd s =
     (case (command, arguments) of
        (Some c, Some a) \<Rightarrow>
          if sint timetodo < 0 \<or> \<not> storage_is_open s then Some (SCH_ST_ERROR, s)
          else storage_flight_plan_set_st cfg
                 (Some \<lparr>fp_unixtime = timetodo, executions = execs, periodical = period, node = nd,
                         cmd = c, args = a\<rparr>) s
      | _ \<Rightarrow> Some (SCH_ST_ERROR, s))"

text \<open>\<^verbatim>\<open>storage_flight_plan_get_idx\<close>; the callers at hand pass the address of a local
  \<^verbatim>\<open>fp_entry_t\<close>, so \<^verbatim>\<open>row\<close> is not \<^verbatim>\<open>NULL\<close>. The second component is the row as the call
  leaves it: \<open>None\<close> when the call does not write it.\<close>

definition storage_flight_plan_get_idx :: "config \<Rightarrow> int \<Rightarrow> storage \<Rightarrow> (int \<times> fp_entry_t option) option" where
  "storage_flight_plan_get_idx cfg index s =
     (if index \<ge> st_flightplan_entries s then Some (SCH_ST_ERROR, None)
      else
        do {
          e \<leftarrow> array_get (st_flightplan_tlb s) index;
          if unixtime e = ST_FP_NULL then Some (SCH_ST_ERROR, None)
          else
            do {
              (rc, bs) \<leftarrow> storage_read_flash cfg (uint (addr e)) 512 s;
              if rc = SCH_ST_OK then
                do {
                  c \<leftarrow> strdup_in (drop 16 bs);
                  a \<leftarrow> strdup_in (drop 264 bs);
                  Some (rc, Some \<lparr>fp_unixtime = of_le32 (take 4 bs),
                                   executions = of_le32 (take 4 (drop 4 bs)),
                                   periodical = of_le32 (take 4 (drop 8 bs)),
                                   node = of_le32 (take 4 (drop 12 bs)),
                                   cmd = c, args = a\<rparr>)
                }
              else Some (rc, None)
            }
        })"

definition storage_flight_plan_get_st :: "config \<Rightarrow> 32 word \<Rightarrow> storage \<Rightarrow> (int \<times> fp_entry_t option) option" where
  "storage_flight_plan_get_st cfg timetodo s =
     do {
       index \<leftarrow> storage_flightplan_find_index_tlb cfg timetodo s;
       if index < 0 then Some (SCH_ST_ERROR, None)
       else storage_flight_plan_get_idx cfg index s
     }"

text \<open>\<^verbatim>\<open>storage_flight_plan_get_args\<close>; \<open>out_ok\<close> says that none of the five output pointers is
  \<^verbatim>\<open>NULL\<close>. The strings are cut to the size of the caller's buffers by \<^verbatim>\<open>strncpy\<close>.\<close>

definition storage_flight_plan_get_args ::
    "config \<Rightarrow> 32 word \<Rightarrow> bool \<Rightarrow> storage \<Rightarrow> (int \<times> fp_entry_t option) option" where
  "storage_flight_plan_get_args cfg timetodo out_ok s =
     do {
       index \<leftarrow> storage_flightplan_find_index_tlb cfg timetodo s;
       if \<not> out_ok then Some (SCH_ST_ERROR, None)
       else
         do {
           (rc, row) \<leftarrow> storage_flight_plan_get_st cfg timetodo s;
           if rc \<noteq> SCH_ST_OK then Some (SCH_ST_ERROR, None)
           else Some (SCH_ST_OK,
                  map_option (\<lambda>r. r\<lparr>cmd := take ST_CMD_MAX_STR_NAME (cmd r),
                                      args := take ST_CMD_MAX_STR_PARAMS (args r)\<rparr>) row)
         }
     }"

definition storage_flight_plan_delete_row_idx :: "config \<Rightarrow> int \<Rightarrow> storage \<Rightarrow> (int \<times> storage) option" where
  "storage_flight_plan_delete_row_idx cfg index s =
     (if index \<ge> st_flightplan_entries s then Some (SCH_ST_ERROR, s)
      else flight_plan_erase_index_tlb cfg index s)"

definition storage_flight_plan_delete_row :: "config \<Rightarrow> 32 word \<Rightarrow> storage \<Rightarrow> (int \<times> storage) option" where
  "storage_flight_plan_delete_row cfg timetodo s =
     do {
       index \<leftarrow> storage_flightplan_find_index_tlb cfg timetodo s;
       if index < 0 then Some (SCH_ST_ERROR, s)
       else storage_flight_plan_delete_row_idx cfg index s
     }"

fun flight_plan_reset_loop :: "config \<Rightarrow> int list \<Rightarrow> int \<times> storage \<Rightarrow> (int \<times> storage) option" where
  "flight_plan_reset_loop cfg [] acc = Some acc"
| "flight_plan_reset_loop cfg (i # is) (rc, s) =
     do {
       a \<leftarrow> table_get (st_flightplan_addr s) i;
       (res, s1) \<leftarrow> storage_erase_flash cfg a s;
       flight_plan_reset_loop cfg is (rc + res, s1)
     }"

definition storage_flight_plan_reset :: "config \<Rightarrow> storage \<Rightarrow> (int \<times> storage) option" where
  "storage_flight_plan_reset cfg s =
     (if \<not> storage_is_open s \<or> st_payload_addr s = None then Some (SCH_ST_ERROR, s)
      else
        do {
          (rc, s1) \<leftarrow> flight_plan_reset_loop cfg [0..st_flightplan_sections s - 1] (SCH_ST_OK, s);
          let tlb = replicate (SCH_FP_MAX_ENTRIES cfg) \<lparr>addr = ST_FP_NULL, unixtime = ST_FP_NULL\<rparr>
                    @ [\<lparr>addr = 0, unixtime = 0\<rparr>];
          (rc2, s2) \<leftarrow> storage_flightplan_dump_tlb cfg (- 1) (s1\<lparr>st_flightplan_tlb := tlb\<rparr>);
          Some (if rc + rc2 = SCH_ST_OK then SCH_ST_OK else SCH_ST_ERROR, s2)
        })"

subsection \<open>Payload samples\<close>

text \<open>\<^verbatim>\<open>data_map_t\<close>, the schema of a payload.\<close>

record data_map_t =
  dm_size :: nat
  sys_index :: int
  data_order :: string
  var_names :: string

definition check_address_alignment :: "int \<Rightarrow> nat \<Rightarrow> int" where
  "check_address_alignment a sz =
     (if u32 (a + int sz) div ST_PAGE_SIZE > a div ST_PAGE_SIZE then SCH_ST_ERROR else SCH_ST_OK)"

definition write_data_with_check :: "config \<Rightarrow> int \<Rightarrow> byte list \<Rightarrow> nat \<Rightarrow> storage \<Rightarrow> (int \<times> storage) option" where
  "write_data_with_check cfg a data sz s =
     (if check_address_alignment a sz = SCH_ST_ERROR then Some (SCH_ST_ERROR, s)
      else if length data < sz then None
      else
        do {
          (ret_write, s1) \<leftarrow> storage_write_flash cfg a (take sz data) s;
          if ret_write \<noteq> 0 then Some (SCH_ST_ERROR, s1) else Some (SCH_ST_OK, s1)
        })"

definition read_data_with_check :: "config \<Rightarrow> int \<Rightarrow> nat \<Rightarrow> storage \<Rightarrow> (int \<times> byte list option) option" where
  "read_data_with_check cfg a sz s =
     (if check_address_alignment a sz = SCH_ST_ERROR then Some (SCH_ST_ERROR, None)
      else
        do {
          (read_ret, bs) \<leftarrow> storage_read_flash cfg a sz s;
          if read_ret \<noteq> 0 then Some (SCH_ST_ERROR, None) else Some (SCH_ST_OK, Some bs)
        })"

text \<open>\<^verbatim>\<open>_get_sample_address\<close>: the return code and, when it is \<^verbatim>\<open>SCH_ST_OK\<close>, the address
  written through the pointer.\<close>

definition get_sample_address :: "config \<Rightarrow> int \<Rightarrow> int \<Rightarrow> nat \<Rightarrow> storage \<Rightarrow> (int \<times> int option) option" where
  "get_sample_address cfg payload index sz s =
     do {
       samples_per_page \<leftarrow> int_div ST_PAGE_SIZE (int sz);
       if samples_per_page = 0 then Some (SCH_ST_ERROR, None)
       else
         do {
           let sample_page = c_div index samples_per_page;
           let index_in_page = c_mod index samples_per_page;
           let pages_in_section = c_div (SCH_SIZE_PER_SECTION cfg) ST_PAGE_SIZE;
           let samples_per_section = samples_per_page * pages_in_section;
           sample_section \<leftarrow> int_div index samples_per_section;
           let section_index = payload * SCH_SECTIONS_PER_PAYLOAD cfg + sample_section;
           if sample_section > SCH_SECTIONS_PER_PAYLOAD cfg then Some (SCH_ST_ERROR, None)
           else if section_index > st_payloads_entries s * SCH_SECTIONS_PER_PAYLOAD cfg
           then Some (SCH_ST_ERROR, None)
           else
             do {
               base \<leftarrow> table_get (st_payload_addr s) section_index;
               let address = u32 (base + sample_page * ST_PAGE_SIZE + index_in_page * int sz);
               if address > u32 (SCH_FLASH_INIT_MEMORY cfg + st_flightplan_base_addr s
                                 + st_payloads_entries s * SCH_SECTIONS_PER_PAYLOAD cfg
                                   * SCH_SIZE_PER_SECTION cfg)
               then Some (SCH_ST_ERROR, None)
               else Some (SCH_ST_OK, Some address)
             }
         }
     }"

definition storage_payload_set_data ::
    "config \<Rightarrow> int \<Rightarrow> int \<Rightarrow> byte list option \<Rightarrow> data_map_t option \<Rightarrow> storage \<Rightarrow> (int \<times> storage) option" where
  "storage_payload_set_data cfg payload index data schema s =
     (if \<not> storage_is_open s \<or> st_payload_addr s = None then Some (SCH_ST_ERROR, s)
      else case (data, schema) of
        (Some d, Some sch) \<Rightarrow>
          do {
            (rc, a) \<leftarrow> get_sample_address cfg payload index (dm_size sch) s;
            case a of
              None \<Rightarrow> Some (SCH_ST_ERROR, s)
            | Some a' \<Rightarrow>
                if rc \<noteq> SCH_ST_OK then Some (SCH_ST_ERROR, s)
                else
                  do {
                    (rc', s1) \<leftarrow> write_data_with_check cfg a' d (dm_size sch) s;
                    Some (if rc' \<noteq> SCH_ST_ERROR then SCH_ST_OK else SCH_ST_ERROR, s1)
                  }
          }
      | _ \<Rightarrow> Some (SCH_ST_ERROR, s))"

text \<open>\<^verbatim>\<open>storage_payload_get_data\<close>; \<open>data_ok\<close> says that the buffer pointer is not \<^verbatim>\<open>NULL\<close>.\<close>

definition storage_payload_get_data ::
    "config \<Rightarrow> int \<Rightarrow> int \<Rightarrow> bool \<Rightarrow> data_map_t option \<Rightarrow> storage \<Rightarrow> (int \<times> byte list option) option" where
  "storage_payload_get_data cfg payload index data_ok schema s =
     (if \<not> storage_is_open s \<or> st_payload_addr s = None then Some (SCH_ST_ERROR, None)
      else case schema of
        Some sch \<Rightarrow>
          if \<not> data_ok then Some (SCH_ST_ERROR, None)
          else
            do {
              (rc, a) \<leftarrow> get_sample_address cfg payload index (dm_size sch) s;
              case a of
                None \<Rightarrow> Some (SCH_ST_ERROR, None)
              | Some a' \<Rightarrow>
                  if rc \<noteq> SCH_ST_OK then Some (SCH_ST_ERROR, None)
                  else
                    do {
                      (rc', bs) \<leftarrow> read_data_with_check cfg a' (dm_size sch) s;
                      Some (if rc' \<noteq> SCH_ST_ERROR then SCH_ST_OK else SCH_ST_ERROR, bs)
                    }
            }
      | None \<Rightarrow> Some (SCH_ST_ERROR, None))"

subsection \<open>Initialisation\<close>

text \<open>\<^verbatim>\<open>static int st_flightplan_sections = (SCH_FP_MAX_ENTRIES * FP_CONTAINER_SIZE) /
  SCH_SIZE_PER_SECTION + 1;\<close> The model takes the section size to be positive here.\<close>

definition flightplan_sections_init :: "config \<Rightarrow> int" where
  "flightplan_sections_init cfg =
     (int (SCH_FP_MAX_ENTRIES cfg) * FP_CONTAINER_SIZE) div SCH_SIZE_PER_SECTION cfg + 1"

definition storage_init :: "config \<Rightarrow> storage \<Rightarrow> (int \<times> storage) option" where
  "storage_init cfg s =
     (let tlb_base = SCH_FLASH_INIT_MEMORY cfg;
          fp_base = tlb_base + SCH_SIZE_PER_SECTION cfg
      in Some (SCH_ST_OK,
           s\<lparr>st_flightplan_tlb_base_addr := tlb_base,
             st_flightplan_base_addr := fp_base,
             st_payload_base_addr := fp_base + SCH_SIZE_PER_SECTION cfg * st_flightplan_sections s,
             storage_is_open := True\<rparr>))"

text \<open>\<^verbatim>\<open>storage_table_payload_init\<close>. The size given to \<^verbatim>\<open>malloc\<close> is
  \<^verbatim>\<open>st_payload_sections * sizeof(uint32_t)\<close>, computed in \<^verbatim>\<open>size_t\<close>: for a negative number of
  sections it is larger than any object, \<^verbatim>\<open>malloc\<close> returns \<^verbatim>\<open>NULL\<close>, the loop does not run
  and the table stays \<^verbatim>\<open>NULL\<close>. Otherwise the allocation is taken to succeed.\<close>

definition storage_table_payload_init :: "config \<Rightarrow> int \<Rightarrow> bool \<Rightarrow> storage \<Rightarrow> (int \<times> storage) option" where
  "storage_table_payload_init cfg n_entries drop_table s =
     (if \<not> storage_is_open s then Some (SCH_ST_ERROR, s)
      else if st_payload_addr s \<noteq> None \<and> \<not> drop_table then Some (SCH_ST_ERROR, s)
      else
        (let sections = SCH_SECTIONS_PER_PAYLOAD cfg * n_entries
         in Some (0,
              s\<lparr>st_payloads_entries := n_entries,
                st_payload_sections := sections,
                st_payload_addr :=
                  (if sections < 0 then None
                   else Some (map (\<lambda>i. u32 (st_payload_base_addr s + int i * SCH_SIZE_PER_SECTION cfg))
                                  [0..<nat sections]))\<rparr>)))"

text \<open>\<^verbatim>\<open>storage_table_flight_plan_init\<close>. With \<open>drop\<close> on an initialised table the code frees
  the address table and then calls \<^verbatim>\<open>storage_flight_plan_reset\<close>, which reads it: the
  freed table is \<open>None\<close> for that call. As above, \<^verbatim>\<open>malloc\<close> returns \<^verbatim>\<open>NULL\<close> for a negative
  number of sections.\<close>

definition storage_table_flight_plan_init :: "config \<Rightarrow> int \<Rightarrow> bool \<Rightarrow> storage \<Rightarrow> (int \<times> storage) option" where
  "storage_table_flight_plan_init cfg n_entries drop_table s =
     (if \<not> storage_is_open s then Some (SCH_ST_ERROR, s)
      else if st_flightplan_addr s \<noteq> None \<and> \<not> drop_table then Some (SCH_ST_ERROR, s)
      else
        do {
          s1 \<leftarrow> (if st_flightplan_addr s \<noteq> None
                 then map_option snd (storage_flight_plan_reset cfg (s\<lparr>st_flightplan_addr := None\<rparr>))
                 else Some s);
          let s2 = s1\<lparr>st_flightplan_entries := n_entries,
                      st_flightplan_addr :=
                        (if st_flightplan_sections s1 < 0 then None
                         else Some (map (\<lambda>i. u32 (st_flightplan_base_addr s1 + int i * SCH_SIZE_PER_SECTION cfg))
                                        [0..<nat (st_flightplan_sections s1)])),
                      st_flightplan_tlb :=
                        replicate (Suc (SCH_FP_MAX_ENTRIES cfg)) \<lparr>addr = ST_FP_NULL, unixtime = ST_FP_NULL\<rparr>\<rparr>;
          storage_flightplan_load_tlb cfg s2
        })"

text \<open>The state of the program when it starts: the static variables hold their initialisers and
  the two arrays are zero.\<close>

definition boot_storage :: "config \<Rightarrow> storage" where
  "boot_storage cfg =
     \<lparr>storage_is_open = False,
      st_flightplan_addr = None,
      st_flightplan_base_addr = 0,
      st_flightplan_sections = flightplan_sections_init cfg,
      st_flightplan_entries = 0,
      st_flightplan_tlb_base_addr = 0,
      st_flightplan_tlb = replicate (Suc (SCH_FP_MAX_ENTRIES cfg)) \<lparr>addr = 0, unixtime = 0\<rparr>,
      st_payload_addr = None,
      st_payload_sections = 0,
      st_payloads_entries = 0,
      st_payload_base_addr = 0,
      flash = (\<lambda>x. 0),
      fram = (\<lambda>x. 0),
      heap_junk = (\<lambda>x. 0),
      flash_log = []\<rparr>"

subsection \<open>Repository layer: the flight plan and its counter\<close>

definition dat_set_fp ::
    "config \<Rightarrow> 32 word \<Rightarrow> byte list option \<Rightarrow> byte list option \<Rightarrow> 32 word \<Rightarrow> 32 word
      \<Rightarrow> storage \<Rightarrow> (int \<times> storage) option" where
  "dat_set_fp cfg timetodo command arguments execs period s =
     do {
       entries \<leftarrow> dat_get_system_var cfg (dat_fpl_queue cfg) s;
       (rc, s1) \<leftarrow> storage_flight_plan_set cfg timetodo command arguments execs period
                     (SCH_COMM_NODE cfg) s;
       if rc = SCH_ST_OK then
         do {
           (rc', s2) \<leftarrow> dat_set_system_var cfg (dat_fpl_queue cfg) (entries + 1) s1;
           Some (rc, s2)
         }
       else Some (rc, s1)
     }"

definition dat_get_fp ::
    "config \<Rightarrow> 32 word \<Rightarrow> bool \<Rightarrow> storage \<Rightarrow> (int \<times> fp_entry_t option \<times> storage) option" where
  "dat_get_fp cfg elapsed_sec out_ok s =
     do {
       entries \<leftarrow> dat_get_system_var cfg (dat_fpl_queue cfg) s;
       (rc, row) \<leftarrow> storage_flight_plan_get_args cfg elapsed_sec out_ok s;
       (rc1, s1) \<leftarrow> (if rc = SCH_ST_OK then storage_flight_plan_delete_row cfg elapsed_sec s
                      else Some (rc, s));
       if rc1 = SCH_ST_OK then
         do {
           (rc', s2) \<leftarrow> dat_set_system_var cfg (dat_fpl_queue cfg) (entries - 1) s1;
           Some (rc1, row, s2)
         }
       else Some (rc1, row, s1)
     }"

definition dat_del_fp :: "config \<Rightarrow> 32 word \<Rightarrow> storage \<Rightarrow> (int \<times> storage) option" where
  "dat_del_fp cfg timetodo s =
     do {
       entries \<leftarrow> dat_get_system_var cfg (dat_fpl_queue cfg) s;
       (rc, s1) \<leftarrow> storage_flight_plan_delete_row cfg timetodo s;
       if rc = SCH_ST_OK then
         do {
           (rc', s2) \<leftarrow> dat_set_system_var cfg (dat_fpl_queue cfg) (entries - 1) s1;
           Some (rc, s2)
         }
       else Some (rc, s1)
     }"

definition dat_reset_fp :: "config \<Rightarrow> storage \<Rightarrow> (int \<times> storage) option" where
  "dat_reset_fp cfg s =
     do {
       (rc, s1) \<leftarrow> storage_flight_plan_reset cfg s;
       if rc = SCH_ST_OK then
         do {
           (rc', s2) \<leftarrow> dat_set_system_var cfg (dat_fpl_queue cfg) 0 s1;
           Some (rc, s2)
         }
       else Some (rc, s1)
     }"




subsection \<open>Well-formed states\<close>

text \<open>The TLB is a static array of \<^verbatim>\<open>SCH_FP_MAX_ENTRIES + 1\<close> slots; its image fits in the FRAM;
  the table was initialised for at most \<^verbatim>\<open>SCH_FP_MAX_ENTRIES\<close> entries, as \<^verbatim>\<open>dat_repo_init\<close>
  does.\<close>

definition tlb_ok :: "config \<Rightarrow> storage \<Rightarrow> bool" where
  "tlb_ok cfg s \<longleftrightarrow>
     length (st_flightplan_tlb s) = Suc (SCH_FP_MAX_ENTRIES cfg)
     \<and> sizeof_tlb cfg \<le> ST_FRAM_SIZE
     \<and> st_flightplan_entries s \<le> int (SCH_FP_MAX_ENTRIES cfg)"

text \<open>The section size is a positive \<^verbatim>\<open>int\<close>.\<close>

definition section_ok :: "config \<Rightarrow> bool" where
  "section_ok cfg \<longleftrightarrow> 0 < SCH_SIZE_PER_SECTION cfg \<and> SCH_SIZE_PER_SECTION cfg < 2 ^ 31"

text \<open>The status table: the index of the flight-plan counter is one of the status variables, the
  two constants that give the distance between the copies agree, and the copies end before the
  image of the TLB begins.\<close>

definition status_ok :: "config \<Rightarrow> bool" where
  "status_ok cfg \<longleftrightarrow>
     0 \<le> dat_fpl_queue cfg \<and> dat_fpl_queue cfg < dat_status_last_var cfg
     \<and> dat_status_last_address cfg = dat_status_last_var cfg
     \<and> 3 * dat_status_last_var cfg * 4 \<le> tlb_addr_start cfg
     \<and> tlb_addr_start cfg \<le> ST_FRAM_SIZE"

subsection \<open>The TLB as the claims speak about it\<close>

text \<open>The metadata counter: the \<^verbatim>\<open>addr\<close> field of the last slot.\<close>

definition fp_counter :: "config \<Rightarrow> storage \<Rightarrow> 32 word" where
  "fp_counter cfg s = addr (st_flightplan_tlb s ! SCH_FP_MAX_ENTRIES cfg)"

text \<open>The test that \<^verbatim>\<open>storage_flight_plan_set_st\<close> makes before it calls
  \<^verbatim>\<open>flight_plan_rebuild_tlb\<close>.\<close>

definition rebuild_due :: "config \<Rightarrow> storage \<Rightarrow> bool" where
  "rebuild_due cfg s \<longleftrightarrow> uint (fp_counter cfg s) > u32 (commands_per_section cfg)"




text \<open>The state after row \<open>r\<close> has been appended: slot \<open>k\<close> of the TLB points at the
  address \<open>a\<close>, the counter is one more, both slots are in the FRAM, the page is in the flash.\<close>

definition fp_appended :: "config \<Rightarrow> fp_entry_t \<Rightarrow> nat \<Rightarrow> int \<Rightarrow> storage \<Rightarrow> storage" where
  "fp_appended cfg r k a s =
     s\<lparr>st_flightplan_tlb :=
         (st_flightplan_tlb s)[k := \<lparr>addr = word_of_int a, unixtime = fp_unixtime r\<rparr>,
            SCH_FP_MAX_ENTRIES cfg :=
              (st_flightplan_tlb s ! SCH_FP_MAX_ENTRIES cfg)\<lparr>addr := 1 + fp_counter cfg s\<rparr>],
       fram := write_mem
                 (write_mem (fram s) (tlb_addr_start cfg + int k * 8)
                    (tlb_entry_bytes \<lparr>addr = word_of_int a, unixtime = fp_unixtime r\<rparr>))
                 (tlb_addr_start cfg + int (SCH_FP_MAX_ENTRIES cfg) * 8)
                 (tlb_entry_bytes ((st_flightplan_tlb s ! SCH_FP_MAX_ENTRIES cfg)\<lparr>addr := 1 + fp_counter cfg s\<rparr>)),
       flash := write_mem (flash s) a (fp_container_bytes r),
       flash_log := flash_log s @ [FlashWrite a 512]\<rparr>"

text \<open>Sequences of calls of the flight-plan functions, and the sequences in which no call of
  \<^verbatim>\<open>storage_flight_plan_set_st\<close> finds the test for a rebuild true.\<close>

datatype fp_call =
    Set_st fp_entry_t
  | Get_st "32 word"
  | Get_idx int
  | Get_args "32 word"
  | Delete_row "32 word"
  | Delete_row_idx int

fun fp_call_run :: "config \<Rightarrow> fp_call \<Rightarrow> storage \<Rightarrow> (int \<times> storage) option" where
  "fp_call_run cfg (Set_st r) s = storage_flight_plan_set_st cfg (Some r) s"
| "fp_call_run cfg (Get_st t) s = map_option (\<lambda>(rc, row). (rc, s)) (storage_flight_plan_get_st cfg t s)"
| "fp_call_run cfg (Get_idx k) s = map_option (\<lambda>(rc, row). (rc, s)) (storage_flight_plan_get_idx cfg k s)"
| "fp_call_run cfg (Get_args t) s = map_option (\<lambda>(rc, row). (rc, s)) (storage_flight_plan_get_args cfg t True s)"
| "fp_call_run cfg (Delete_row t) s = storage_flight_plan_delete_row cfg t s"
| "fp_call_run cfg (Delete_row_idx k) s = storage_flight_plan_delete_row_idx cfg k s"

fun fp_calls_run :: "config \<Rightarrow> fp_call list \<Rightarrow> storage \<Rightarrow> storage option" where
  "fp_calls_run cfg [] s = Some s"
| "fp_calls_run cfg (c # cs) s = do { (rc, s') \<leftarrow> fp_call_run cfg c s; fp_calls_run cfg cs s' }"

fun no_compaction :: "config \<Rightarrow> fp_call list \<Rightarrow> storage \<Rightarrow> bool" where
  "no_compaction cfg [] s = True"
| "no_compaction cfg (c # cs) s =
     ((case c of Set_st r \<Rightarrow> \<not> rebuild_due cfg s | _ \<Rightarrow> True)
      \<and> (case fp_call_run cfg c s of None \<Rightarrow> True | Some (rc, s') \<Rightarrow> no_compaction cfg cs s'))"

text \<open>What a flight-plan operation may change: the flash, its log, the TLB slots and the
  part of the FRAM that holds the TLB.\<close>

definition fram_low_eq :: "config \<Rightarrow> mem \<Rightarrow> mem \<Rightarrow> bool" where
  "fram_low_eq cfg m m' \<longleftrightarrow> (\<forall>x. x < tlb_addr_start cfg \<longrightarrow> m' x = m x)"

definition same_tables :: "storage \<Rightarrow> storage \<Rightarrow> bool" where
  "same_tables s s' \<longleftrightarrow>
     storage_is_open s' = storage_is_open s \<and> st_flightplan_addr s' = st_flightplan_addr s
     \<and> st_flightplan_entries s' = st_flightplan_entries s \<and> st_payload_addr s' = st_payload_addr s
     \<and> st_flightplan_sections s' = st_flightplan_sections s
     \<and> length (st_flightplan_tlb s') = length (st_flightplan_tlb s)"

definition fp_frame :: "config \<Rightarrow> storage \<Rightarrow> storage \<Rightarrow> bool" where
  "fp_frame cfg s s' \<longleftrightarrow> same_tables s s' \<and> fram_low_eq cfg (fram s) (fram s')"



subsection \<open>The payload address of the specification\<close>

text \<open>The address of sample \<open>i\<close> of payload \<open>p\<close> as the specification gives it, for a record size
  \<open>sz\<close> and the table \<open>base\<close> of section addresses.\<close>

definition sample_address_spec :: "config \<Rightarrow> int list \<Rightarrow> int \<Rightarrow> int \<Rightarrow> int \<Rightarrow> int" where
  "sample_address_spec cfg base p i sz =
     (let samples_per_page = ST_PAGE_SIZE div sz;
          pages_in_section = SCH_SIZE_PER_SECTION cfg div ST_PAGE_SIZE;
          samples_per_section = samples_per_page * pages_in_section;
          section_idx = p * SCH_SECTIONS_PER_PAYLOAD cfg + i div samples_per_section
      in base ! nat section_idx
         + ((i div samples_per_page) mod pages_in_section) * ST_PAGE_SIZE
         + (i mod samples_per_page) * sz)"

subsection \<open>A small configuration\<close>

text \<open>Five flight-plan slots, sections of four pages (so four commands per section and two
  flight-plan sections), two sections per payload, sixteen status variables written three
  times, the flight-plan counter at index 7.\<close>

definition demo_cfg :: config where
  "demo_cfg =
     \<lparr>SCH_FP_MAX_ENTRIES = 5, SCH_SIZE_PER_SECTION = 2048, SCH_SECTIONS_PER_PAYLOAD = 2,
      SCH_FLASH_INIT_MEMORY = 0, SCH_COMM_NODE = 1, SCH_STORAGE_TRIPLE_WR = True,
      dat_status_last_address = 16, dat_status_last_var = 16, dat_fpl_queue = 7\<rparr>"

text \<open>The state after \<^verbatim>\<open>storage_init\<close>, \<^verbatim>\<open>storage_table_payload_init\<close> for two payloads,
  \<^verbatim>\<open>storage_table_flight_plan_init\<close> for five entries and \<^verbatim>\<open>storage_flight_plan_reset\<close>
  (lemma \<open>demo_reachable\<close>).\<close>

definition demo_storage :: storage where
  "demo_storage =
     \<lparr>storage_is_open = True,
      st_flightplan_addr = Some [2048, 4096],
      st_flightplan_base_addr = 2048,
      st_flightplan_sections = 2,
      st_flightplan_entries = 5,
      st_flightplan_tlb_base_addr = 0,
      st_flightplan_tlb = [\<lparr>addr = ST_FP_NULL, unixtime = ST_FP_NULL\<rparr>, \<lparr>addr = ST_FP_NULL, unixtime = ST_FP_NULL\<rparr>,
         \<lparr>addr = ST_FP_NULL, unixtime = ST_FP_NULL\<rparr>, \<lparr>addr = ST_FP_NULL, unixtime = ST_FP_NULL\<rparr>,
         \<lparr>addr = ST_FP_NULL, unixtime = ST_FP_NULL\<rparr>, \<lparr>addr = 0, unixtime = 0\<rparr>],
      st_payload_addr = Some [6144, 8192, 10240, 12288],
      st_payload_sections = 4,
      st_payloads_entries = 2,
      st_payload_base_addr = 6144,
      flash = (\<lambda>x. 0),
      fram = write_mem (\<lambda>x. 0) 32720
               (concat (map tlb_entry_bytes
                  ([\<lparr>addr = ST_FP_NULL, unixtime = ST_FP_NULL\<rparr>, \<lparr>addr = ST_FP_NULL, unixtime = ST_FP_NULL\<rparr>,
         \<lparr>addr = ST_FP_NULL, unixtime = ST_FP_NULL\<rparr>, \<lparr>addr = ST_FP_NULL, unixtime = ST_FP_NULL\<rparr>,
         \<lparr>addr = ST_FP_NULL, unixtime = ST_FP_NULL\<rparr>, \<lparr>addr = 0, unixtime = 0\<rparr>]))),
      heap_junk = (\<lambda>x. 0),
      flash_log = [FlashErase 2048, FlashErase 4096]\<rparr>"

text \<open>A command \<^verbatim>\<open>ping 5\<close> for the time \<open>t\<close>, and the states after such commands have been set for
  the times 500, 1500, 2500 and 3500 (lemma \<open>demo_set_steps\<close>).\<close>

definition demo_row :: "32 word \<Rightarrow> fp_entry_t" where
  "demo_row t = \<lparr>fp_unixtime = t, executions = 1, periodical = 0, node = 1,
                 cmd = [112, 105, 110, 103], args = [53]\<rparr>"

definition demo_fp1 :: storage where
  "demo_fp1 = fp_appended demo_cfg (demo_row 500) 0 2048 demo_storage"

definition demo_fp2 :: storage where
  "demo_fp2 = fp_appended demo_cfg (demo_row 1500) 1 2560 demo_fp1"

definition demo_fp3 :: storage where
  "demo_fp3 = fp_appended demo_cfg (demo_row 2500) 2 3072 demo_fp2"

definition demo_fp4 :: storage where
  "demo_fp4 = fp_appended demo_cfg (demo_row 3500) 3 3584 demo_fp3"

text \<open>The fifth command, set when the counter equals \<^verbatim>\<open>commands_per_section\<close>.\<close>

definition demo_fp5 :: storage where
  "demo_fp5 = fp_appended demo_cfg (demo_row 4500) 4 4096 demo_fp4"

text \<open>The state after the command for the time 500 has been deleted from \<open>demo_fp2\<close>.\<close>

definition demo_fp2_deleted :: storage where
  "demo_fp2_deleted =
     demo_fp2\<lparr>st_flightplan_tlb :=
                 (st_flightplan_tlb demo_fp2)[0 := \<lparr>addr = ST_FP_NULL, unixtime = ST_FP_NULL\<rparr>],
               fram := write_mem (fram demo_fp2) (tlb_addr_start demo_cfg + 0 * 8)
                         (tlb_entry_bytes \<lparr>addr = ST_FP_NULL, unixtime = ST_FP_NULL\<rparr>)\<rparr>"

text \<open>A payload with records of 200 bytes, and one record.\<close>

definition demo_schema :: data_map_t where
  "demo_schema = \<lparr>dm_size = 200, sys_index = 8, data_order = ''%u %f'', var_names = ''index value''\<rparr>"

definition demo_sample :: "byte list" where
  "demo_sample = replicate 200 171"

section \<open>Properties\<close>

subsection \<open>Memory and encoding\<close>

lemma of_le32_le32 [simp]: "of_le32 (le32 w) = w"
proof (rule bit_word_eqI)
  fix n assume n: "n < LENGTH(32)"
  consider "n < 8" | "8 \<le> n" "n < 16" | "16 \<le> n" "n < 24" | "24 \<le> n" "n < 32"
    using n by fastforce
  then show "bit (of_le32 (le32 w)) n = bit w n"
    by cases (auto simp: le32_def of_le32_def bit_simps)
qed

lemma length_le32 [simp]: "length (le32 w) = 4"
  by (simp add: le32_def)

lemma length_read_mem [simp]: "length (read_mem m a n) = n"
  by (simp add: read_mem_def)

lemma read_write_same: "length bs = n \<Longrightarrow> read_mem (write_mem m a bs) a n = bs"
  by (auto simp: read_mem_def write_mem_def intro!: nth_equalityI)

lemma read_write_other:
  "a + int n \<le> b \<or> b + int (length bs) \<le> a \<Longrightarrow> read_mem (write_mem m b bs) a n = read_mem m a n"
  by (auto simp: read_mem_def write_mem_def)

subsection \<open>Status table\<close>

lemma status_addr_get: "((index mod 2 ^ 32) * 4) mod 2 ^ 16 = (index * 4) mod (2 ^ 16 :: int)"
proof -
  have "((index mod 2 ^ 32) * 4) mod 2 ^ 16 = (((index mod 2 ^ 32) mod 2 ^ 16) * 4) mod (2 ^ 16 :: int)"
    by (simp add: mod_mult_left_eq)
  also have "(index mod 2 ^ 32) mod 2 ^ 16 = index mod (2 ^ 16 :: int)"
    by (rule mod_mod_cancel) simp
  finally show ?thesis by (simp add: mod_mult_left_eq)
qed

lemma status_set_at:
  assumes "0 \<le> i" "i * 4 + 4 \<le> ST_FRAM_SIZE"
  shows "storage_status_set_value_idx i v s =
           Some (SCH_ST_OK, s\<lparr>fram := write_mem (fram s) (i * 4) (le32 v)\<rparr>)"
  using assms by (simp add: storage_status_set_value_idx_def storage_write_fram_def)

lemma status_get_at:
  assumes "0 \<le> i" "i * 4 + 4 \<le> ST_FRAM_SIZE"
  shows "storage_status_get_value_idx i s = Some (SCH_ST_OK, slot (fram s) i)"
  using assms
  by (simp add: storage_status_get_value_idx_def storage_read_fram_def status_addr_get slot_def)

lemma slot_write_same [simp]: "a = j * 4 \<Longrightarrow> slot (write_mem m a (le32 v)) j = v"
  by (simp add: slot_def read_write_same)

lemma slot_write_other [simp]:
  "a + 4 \<le> j * 4 \<or> j * 4 + 4 \<le> a \<Longrightarrow> slot (write_mem m a (le32 v)) j = slot m j"
  unfolding slot_def by (rule arg_cong[where f=of_le32], rule read_write_other) auto

lemma dat_get_status_var_triple:
  assumes "SCH_STORAGE_TRIPLE_WR cfg" "0 \<le> i" "0 \<le> dat_status_last_var cfg"
    and "(i + dat_status_last_var cfg * 2) * 4 + 4 \<le> ST_FRAM_SIZE"
  shows "dat_get_status_var cfg i s =
    Some (if slot (fram s) i = slot (fram s) (i + dat_status_last_var cfg)
            \<or> slot (fram s) i = slot (fram s) (i + dat_status_last_var cfg * 2) then slot (fram s) i
          else if slot (fram s) (i + dat_status_last_var cfg) = slot (fram s) (i + dat_status_last_var cfg * 2)
          then slot (fram s) (i + dat_status_last_var cfg) else slot (fram s) i)"
  using assms by (simp add: dat_get_status_var_def status_get_at)

lemma dat_set_status_var_triple:
  assumes "SCH_STORAGE_TRIPLE_WR cfg" "0 \<le> i" "0 \<le> dat_status_last_address cfg"
    and "(i + dat_status_last_address cfg * 2) * 4 + 4 \<le> ST_FRAM_SIZE"
  shows "dat_set_status_var cfg i v s =
    Some (SCH_ST_OK, s\<lparr>fram := write_mem (write_mem (write_mem (fram s) (i * 4) (le32 v))
        ((i + dat_status_last_address cfg) * 4) (le32 v))
        ((i + dat_status_last_address cfg * 2) * 4) (le32 v)\<rparr>)"
  using assms by (simp add: dat_set_status_var_def status_set_at)

lemma slot_write_copy:
  fixes i N :: int
  assumes "0 < N" "c \<in> {0, 1, 2}" "k \<in> {0, 1, 2}"
  shows "slot (write_mem m ((i + N * k) * 4) (le32 w)) (i + N * c) =
           (if c = k then w else slot m (i + N * c))"
  using assms by auto

lemma slots_after_set:
  fixes i N :: int
  assumes "0 < N" "c \<in> {0, 1, 2}"
  shows "slot (write_mem (write_mem (write_mem m (i * 4) (le32 v)) ((i + N) * 4) (le32 v))
                ((i + N * 2) * 4) (le32 v)) (i + N * c) = v"
  using assms by auto

lemma u32_id: "0 \<le> x \<Longrightarrow> x < 2 ^ 32 \<Longrightarrow> u32 x = x"
  by (simp add: u32_def)

lemma tlb_addr_start_eq:
  "sizeof_tlb cfg \<le> ST_FRAM_SIZE \<Longrightarrow> tlb_addr_start cfg = ST_FRAM_SIZE - sizeof_tlb cfg"
  unfolding tlb_addr_start_def by (rule u32_id) (auto simp: sizeof_tlb_def)

lemma tlb_slot_addr:
  assumes "sizeof_tlb cfg \<le> ST_FRAM_SIZE" "0 \<le> k" "k \<le> int (SCH_FP_MAX_ENTRIES cfg)"
  shows "u32 (tlb_addr_start cfg + k * 8) = tlb_addr_start cfg + k * 8"
    and "0 \<le> tlb_addr_start cfg + k * 8" and "tlb_addr_start cfg + k * 8 + 8 \<le> ST_FRAM_SIZE"
proof -
  have a: "tlb_addr_start cfg = ST_FRAM_SIZE - sizeof_tlb cfg"
    using assms(1) by (rule tlb_addr_start_eq)
  have b: "0 \<le> sizeof_tlb cfg" "k * 8 + 8 \<le> sizeof_tlb cfg"
    using assms by (auto simp: sizeof_tlb_def)
  show "0 \<le> tlb_addr_start cfg + k * 8" "tlb_addr_start cfg + k * 8 + 8 \<le> ST_FRAM_SIZE"
    using a b assms by auto
  then show "u32 (tlb_addr_start cfg + k * 8) = tlb_addr_start cfg + k * 8"
    by (intro u32_id) auto
qed

lemma length_tlb_entry_bytes [simp]: "length (tlb_entry_bytes e) = 8"
  by (simp add: tlb_entry_bytes_def)

lemma tlb_entry_of_bytes_inv [simp]: "tlb_entry_of_bytes (tlb_entry_bytes e) = e"
  by (simp add: tlb_entry_bytes_def tlb_entry_of_bytes_def)

lemma dump_tlb_slot:
  assumes "tlb_ok cfg s" "0 \<le> k" "k \<le> int (SCH_FP_MAX_ENTRIES cfg)"
  shows "storage_flightplan_dump_tlb cfg k s =
           Some (SCH_ST_OK, s\<lparr>fram := write_mem (fram s) (tlb_addr_start cfg + k * 8)
                                         (tlb_entry_bytes (st_flightplan_tlb s ! nat k))\<rparr>)"
proof -
  have ok: "sizeof_tlb cfg \<le> ST_FRAM_SIZE" "length (st_flightplan_tlb s) = Suc (SCH_FP_MAX_ENTRIES cfg)"
    using assms(1) by (auto simp: tlb_ok_def)
  note a = tlb_slot_addr[OF ok(1) assms(2,3)]
  show ?thesis
    using assms(2,3) ok(2) a(2,3)
    by (simp add: storage_flightplan_dump_tlb_def array_get_def a(1) storage_write_fram_def)
qed

lemma erase_index_tlb_ok:
  assumes "tlb_ok cfg s" "0 \<le> k" "k < st_flightplan_entries s"
  shows "flight_plan_erase_index_tlb cfg k s =
     Some (SCH_ST_OK,
       s\<lparr>st_flightplan_tlb := (st_flightplan_tlb s)[nat k := \<lparr>addr = ST_FP_NULL, unixtime = ST_FP_NULL\<rparr>],
         fram := write_mem (fram s) (tlb_addr_start cfg + k * 8)
                   (tlb_entry_bytes \<lparr>addr = ST_FP_NULL, unixtime = ST_FP_NULL\<rparr>)\<rparr>)"
proof -
  let ?s1 = "s\<lparr>st_flightplan_tlb := (st_flightplan_tlb s)[nat k := \<lparr>addr = ST_FP_NULL, unixtime = ST_FP_NULL\<rparr>]\<rparr>"
  have k: "k \<le> int (SCH_FP_MAX_ENTRIES cfg)" "nat k < length (st_flightplan_tlb s)"
    using assms by (auto simp: tlb_ok_def)
  have "tlb_ok cfg ?s1" using assms(1) by (simp add: tlb_ok_def)
  from dump_tlb_slot[OF this assms(2) k(1)] show ?thesis
    using assms k by (simp add: flight_plan_erase_index_tlb_def)
qed

lemma write_mem_zeros [simp]: "write_mem (\<lambda>x. 0) a (replicate n 0) = (\<lambda>x. 0)"
  by (rule ext) (auto simp: write_mem_def)

lemma length_concat_tlb [simp]: "length (concat (map tlb_entry_bytes xs)) = 8 * length xs"
  by (induction xs) simp_all

lemma replicate_5: "replicate 5 x = [x, x, x, x, x]"
  by (simp add: numeral_eq_Suc)

lemma demo_reachable:
  "do {
     (rc1, s1) \<leftarrow> storage_init demo_cfg (boot_storage demo_cfg);
     (rc2, s2) \<leftarrow> storage_table_payload_init demo_cfg 2 False s1;
     (rc3, s3) \<leftarrow> storage_table_flight_plan_init demo_cfg 5 False s2;
     storage_flight_plan_reset demo_cfg s3
   } = Some (SCH_ST_OK, demo_storage)"
  by (simp add: demo_cfg_def boot_storage_def storage_init_def storage_table_payload_init_def
      storage_table_flight_plan_init_def storage_flight_plan_reset_def storage_flightplan_load_tlb_def
      storage_read_fram_def storage_flightplan_dump_tlb_def storage_write_fram_def
      flightplan_sections_init_def tlb_addr_start_def sizeof_tlb_def u32_def
      table_get_def array_get_def storage_erase_flash_def c_div_def flash_size_def
      demo_storage_def upto.simps Let_def upt_conv_Cons replicate_5)

lemma tlb_ok_last:
  "tlb_ok cfg s \<Longrightarrow> array_get (st_flightplan_tlb s) (int (SCH_FP_MAX_ENTRIES cfg))
     = Some (st_flightplan_tlb s ! SCH_FP_MAX_ENTRIES cfg)"
  by (simp add: tlb_ok_def array_get_def)

lemma update_tlb_ok:
  assumes ok: "tlb_ok cfg s" and k: "0 \<le> k" "k < int (SCH_FP_MAX_ENTRIES cfg)"
  shows "storage_flightplan_update_tlb cfg k ut a s =
     Some (SCH_ST_OK,
       s\<lparr>st_flightplan_tlb :=
           (st_flightplan_tlb s)[nat k := \<lparr>addr = a, unixtime = ut\<rparr>,
              SCH_FP_MAX_ENTRIES cfg :=
                (st_flightplan_tlb s ! SCH_FP_MAX_ENTRIES cfg)\<lparr>addr := 1 + fp_counter cfg s\<rparr>],
         fram := write_mem
                   (write_mem (fram s) (tlb_addr_start cfg + k * 8) (tlb_entry_bytes \<lparr>addr = a, unixtime = ut\<rparr>))
                   (tlb_addr_start cfg + int (SCH_FP_MAX_ENTRIES cfg) * 8)
                   (tlb_entry_bytes ((st_flightplan_tlb s ! SCH_FP_MAX_ENTRIES cfg)\<lparr>addr := 1 + fp_counter cfg s\<rparr>))\<rparr>)"
proof -
  let ?n = "SCH_FP_MAX_ENTRIES cfg"
  let ?last = "st_flightplan_tlb s ! ?n"
  let ?tlb2 = "(st_flightplan_tlb s)[nat k := \<lparr>addr = a, unixtime = ut\<rparr>, ?n := ?last\<lparr>addr := 1 + addr ?last\<rparr>]"
  let ?s1 = "s\<lparr>st_flightplan_tlb := ?tlb2\<rparr>"
  have len: "length (st_flightplan_tlb s) = Suc ?n" using ok by (simp add: tlb_ok_def)
  have kn: "nat k < ?n" "nat k \<noteq> ?n" using k by auto
  have ok1: "tlb_ok cfg ?s1" using ok by (simp add: tlb_ok_def)
  have d1: "storage_flightplan_dump_tlb cfg k ?s1 =
      Some (SCH_ST_OK, ?s1\<lparr>fram := write_mem (fram s) (tlb_addr_start cfg + k * 8) (tlb_entry_bytes \<lparr>addr = a, unixtime = ut\<rparr>)\<rparr>)"
    using dump_tlb_slot[OF ok1 k(1)] k kn len by simp
  let ?s2 = "?s1\<lparr>fram := write_mem (fram s) (tlb_addr_start cfg + k * 8) (tlb_entry_bytes \<lparr>addr = a, unixtime = ut\<rparr>)\<rparr>"
  have ok2: "tlb_ok cfg ?s2" using ok by (simp add: tlb_ok_def)
  have d2: "storage_flightplan_dump_tlb cfg (int ?n) ?s2 =
      Some (SCH_ST_OK, ?s2\<lparr>fram := write_mem (fram ?s2) (tlb_addr_start cfg + int ?n * 8)
               (tlb_entry_bytes (?last\<lparr>addr := 1 + addr ?last\<rparr>))\<rparr>)"
    using dump_tlb_slot[OF ok2, of "int ?n"] len by simp
  show ?thesis
    using k len kn d1 d2
    by (simp add: storage_flightplan_update_tlb_def array_get_def Let_def fp_counter_def)
qed

lemma find_index_tlb_cases:
  assumes "tlb_ok cfg s"
  obtains "storage_flightplan_find_index_tlb cfg ut s = Some (- 1)"
      "\<forall>i < SCH_FP_MAX_ENTRIES cfg. unixtime (st_flightplan_tlb s ! i) \<noteq> ut"
  | i where "storage_flightplan_find_index_tlb cfg ut s = Some (int i)" "i < SCH_FP_MAX_ENTRIES cfg"
      "unixtime (st_flightplan_tlb s ! i) = ut" "\<forall>j < i. unixtime (st_flightplan_tlb s ! j) \<noteq> ut"
proof (cases "find (\<lambda>i. unixtime (st_flightplan_tlb s ! i) = ut) [0..<SCH_FP_MAX_ENTRIES cfg]")
  case None
  then have "storage_flightplan_find_index_tlb cfg ut s = Some (- 1)"
    using assms by (simp add: storage_flightplan_find_index_tlb_def tlb_ok_def)
  moreover have "\<forall>i < SCH_FP_MAX_ENTRIES cfg. unixtime (st_flightplan_tlb s ! i) \<noteq> ut"
    using None by (auto simp: find_None_iff)
  ultimately show ?thesis using that(1) by blast
next
  case (Some i)
  then have "storage_flightplan_find_index_tlb cfg ut s = Some (int i)"
    using assms by (simp add: storage_flightplan_find_index_tlb_def tlb_ok_def)
  moreover have "i < SCH_FP_MAX_ENTRIES cfg" "unixtime (st_flightplan_tlb s ! i) = ut"
    "\<forall>j < i. unixtime (st_flightplan_tlb s ! j) \<noteq> ut"
    using Some by (auto simp: find_Some_iff)
  ultimately show ?thesis using that(2) by blast
qed

lemma length_strncpy_field [simp]: "length (strncpy_field n src) = n"
  by (simp add: strncpy_field_def Let_def)

lemma length_fp_container_bytes [simp]: "length (fp_container_bytes r) = 512"
  by (simp add: fp_container_bytes_def)

lemma set_st_place_cases:
  assumes ok: "tlb_ok cfg s"
    and run: "storage_flight_plan_set_st_place cfg r s = Some (rc, s')"
  shows "(rc = SCH_ST_ERROR \<and> s' = s)
       \<or> (rc = SCH_ST_OK \<and> (\<exists>k a. k < SCH_FP_MAX_ENTRIES cfg
              \<and> storage_flightplan_find_index_tlb cfg ST_FP_NULL s = Some (int k)
              \<and> s' = fp_appended cfg r k a s))"
proof (rule find_index_tlb_cases[OF ok, of ST_FP_NULL])
  assume "storage_flightplan_find_index_tlb cfg ST_FP_NULL s = Some (- 1)"
  then show ?thesis
    using run by (simp add: storage_flight_plan_set_st_place_def)
next
  fix i
  assume i: "storage_flightplan_find_index_tlb cfg ST_FP_NULL s = Some (int i)" "i < SCH_FP_MAX_ENTRIES cfg"
  show ?thesis
  proof (cases "int i \<ge> st_flightplan_entries s")
    case True
    then show ?thesis
      using run i by (simp add: storage_flight_plan_set_st_place_def)
  next
    case False
    show ?thesis
      using run i False
      by (auto simp: storage_flight_plan_set_st_place_def tlb_ok_last[OF ok] Let_def
            update_tlb_ok[OF ok] storage_write_flash_def fp_appended_def
            split: Option.bind_splits if_splits)
  qed
qed

lemma set_st_not_due:
  assumes "tlb_ok cfg s" "\<not> rebuild_due cfg s" "storage_is_open s"
  shows "storage_flight_plan_set_st cfg (Some r) s = storage_flight_plan_set_st_place cfg r s"
  using assms
  by (simp add: storage_flight_plan_set_st_def tlb_ok_last rebuild_due_def fp_counter_def)

lemma set_st_no_rebuild:
  assumes ok: "tlb_ok cfg s" and nr: "\<not> rebuild_due cfg s"
    and run: "storage_flight_plan_set_st cfg row s = Some (rc, s')"
  shows "(rc = SCH_ST_ERROR \<and> s' = s)
       \<or> (rc = SCH_ST_OK \<and> (\<exists>r k a. row = Some r \<and> k < SCH_FP_MAX_ENTRIES cfg
              \<and> storage_flightplan_find_index_tlb cfg ST_FP_NULL s = Some (int k)
              \<and> s' = fp_appended cfg r k a s))"
proof (cases row)
  case None
  then show ?thesis using run by (simp add: storage_flight_plan_set_st_def)
next
  case (Some r)
  show ?thesis
  proof (cases "storage_is_open s")
    case False
    then show ?thesis using run Some by (simp add: storage_flight_plan_set_st_def)
  next
    case True
    then show ?thesis
      using set_st_place_cases[OF ok, of r rc s'] run Some set_st_not_due[OF ok nr True, of r]
      by auto
  qed
qed

lemma c_div_nonneg: "0 \<le> a \<Longrightarrow> 0 < b \<Longrightarrow> c_div a b = a div b"
  by (cases "a = 0") (simp_all add: c_div_def)

lemma c_mod_nonneg: "0 \<le> a \<Longrightarrow> 0 < b \<Longrightarrow> c_mod a b = a mod b"
  by (simp add: c_mod_def c_div_nonneg minus_mult_div_eq_mod)

lemma commands_per_section_bounds:
  assumes "section_ok cfg"
  shows "0 \<le> commands_per_section cfg" "commands_per_section cfg < 2 ^ 22"
    "u32 (commands_per_section cfg) = commands_per_section cfg"
proof -
  have eq: "commands_per_section cfg = SCH_SIZE_PER_SECTION cfg div 512"
    using assms by (simp add: commands_per_section_def c_div_nonneg section_ok_def)
  show a: "0 \<le> commands_per_section cfg" "commands_per_section cfg < 2 ^ 22"
    using assms unfolding eq section_ok_def by auto
  show "u32 (commands_per_section cfg) = commands_per_section cfg"
    using a by (intro u32_id) auto
qed

lemma counter_step:
  fixes c :: "32 word"
  assumes "uint c \<le> n" "n < 2 ^ 22"
  shows "uint (1 + c) = uint c + 1" "c < 1 + c"
proof -
  have "(1 + uint c) mod 2 ^ 32 = 1 + uint c"
    using assms by (intro mod_pos_pos_trivial) auto
  then show a: "uint (1 + c) = uint c + 1"
    by (simp add: uint_word_ariths)
  show "c < 1 + c"
    unfolding word_less_def a by simp
qed

lemma fp_appended_props:
  assumes "tlb_ok cfg s" "k < SCH_FP_MAX_ENTRIES cfg"
  shows "tlb_ok cfg (fp_appended cfg r k a s)"
    and "fp_counter cfg (fp_appended cfg r k a s) = 1 + fp_counter cfg s"
  using assms by (simp_all add: tlb_ok_def fp_appended_def fp_counter_def)

lemma erase_index_tlb_props:
  assumes ok: "tlb_ok cfg s" and run: "flight_plan_erase_index_tlb cfg k s = Some (rc, s')"
  shows "tlb_ok cfg s'" and "fp_counter cfg s' = fp_counter cfg s"
proof -
  consider "k < 0 \<or> k \<ge> st_flightplan_entries s" | "0 \<le> k" "k < st_flightplan_entries s"
    by linarith
  then have "tlb_ok cfg s' \<and> fp_counter cfg s' = fp_counter cfg s"
  proof cases
    case 1
    then have "s' = s" using run by (auto simp: flight_plan_erase_index_tlb_def)
    then show ?thesis using ok by simp
  next
    case 2
    have "nat k \<noteq> SCH_FP_MAX_ENTRIES cfg" using 2 ok by (auto simp: tlb_ok_def)
    then show ?thesis
      using run ok unfolding erase_index_tlb_ok[OF ok 2]
      by (auto simp: tlb_ok_def fp_counter_def)
  qed
  then show "tlb_ok cfg s'" and "fp_counter cfg s' = fp_counter cfg s" by simp_all
qed

lemma delete_row_idx_props:
  assumes ok: "tlb_ok cfg s" and run: "storage_flight_plan_delete_row_idx cfg k s = Some (rc, s')"
  shows "tlb_ok cfg s'" and "fp_counter cfg s' = fp_counter cfg s"
  using run ok erase_index_tlb_props[OF ok, of k rc s']
  by (auto simp: storage_flight_plan_delete_row_idx_def split: if_splits)

lemma delete_row_props:
  assumes ok: "tlb_ok cfg s" and run: "storage_flight_plan_delete_row cfg t s = Some (rc, s')"
  shows "tlb_ok cfg s'" and "fp_counter cfg s' = fp_counter cfg s"
  using run ok delete_row_idx_props[OF ok, of _ rc s']
  by (auto simp: storage_flight_plan_delete_row_def split: if_splits Option.bind_splits)

lemma set_st_no_rebuild_props:
  assumes ok: "tlb_ok cfg s" and sec: "section_ok cfg" and nr: "\<not> rebuild_due cfg s"
    and run: "storage_flight_plan_set_st cfg row s = Some (rc, s')"
  shows "tlb_ok cfg s'"
    and "rc = SCH_ST_OK \<longrightarrow> fp_counter cfg s' = fp_counter cfg s + 1 \<and> fp_counter cfg s < fp_counter cfg s'"
    and "rc \<noteq> SCH_ST_OK \<longrightarrow> s' = s"
    and "fp_counter cfg s \<le> fp_counter cfg s'"
proof -
  have le: "uint (fp_counter cfg s) \<le> commands_per_section cfg"
    using nr commands_per_section_bounds(3)[OF sec] by (simp add: rebuild_due_def)
  note step = counter_step[OF le commands_per_section_bounds(2)[OF sec]]
  from set_st_no_rebuild[OF ok nr run]
  consider "rc = SCH_ST_ERROR" "s' = s"
    | r k a where "rc = SCH_ST_OK" "k < SCH_FP_MAX_ENTRIES cfg" "s' = fp_appended cfg r k a s"
    by blast
  then have "tlb_ok cfg s' \<and> (rc = SCH_ST_OK \<longrightarrow> fp_counter cfg s' = fp_counter cfg s + 1 \<and> fp_counter cfg s < fp_counter cfg s')
     \<and> (rc \<noteq> SCH_ST_OK \<longrightarrow> s' = s) \<and> fp_counter cfg s \<le> fp_counter cfg s'"
  proof cases
    case 1
    then show ?thesis using ok by simp
  next
    case 2
    then show ?thesis
      using fp_appended_props[OF ok 2(2), of r a] step(2) by (simp add: less_imp_le)
  qed
  then show "tlb_ok cfg s'"
    and "rc = SCH_ST_OK \<longrightarrow> fp_counter cfg s' = fp_counter cfg s + 1 \<and> fp_counter cfg s < fp_counter cfg s'"
    and "rc \<noteq> SCH_ST_OK \<longrightarrow> s' = s"
    and "fp_counter cfg s \<le> fp_counter cfg s'"
    by blast+
qed

lemma fp_call_run_props:
  assumes ok: "tlb_ok cfg s" and sec: "section_ok cfg"
    and nr: "case c of Set_st r \<Rightarrow> \<not> rebuild_due cfg s | _ \<Rightarrow> True"
    and run: "fp_call_run cfg c s = Some (rc, s')"
  shows "tlb_ok cfg s' \<and> fp_counter cfg s \<le> fp_counter cfg s'"
proof (cases c)
  case (Set_st r)
  then show ?thesis using set_st_no_rebuild_props(1,4)[OF ok sec _ , of "Some r" rc s'] nr run by simp
next
  case (Delete_row t)
  then show ?thesis using delete_row_props[OF ok, of t rc s'] run by simp
next
  case (Delete_row_idx k)
  then show ?thesis using delete_row_idx_props[OF ok, of k rc s'] run by simp
qed (use ok run in auto)

lemma fp_calls_run_monotone:
  assumes "tlb_ok cfg s" "section_ok cfg" "no_compaction cfg cs s" "fp_calls_run cfg cs s = Some s'"
  shows "fp_counter cfg s \<le> fp_counter cfg s'"
  using assms
proof (induction cs arbitrary: s)
  case Nil
  then show ?case by simp
next
  case (Cons c cs)
  from Cons.prems(4) obtain rc s1 where run: "fp_call_run cfg c s = Some (rc, s1)"
    and rest: "fp_calls_run cfg cs s1 = Some s'"
    by (auto split: Option.bind_splits)
  have nr: "case c of Set_st r \<Rightarrow> \<not> rebuild_due cfg s | _ \<Rightarrow> True"
    and nc: "no_compaction cfg cs s1"
    using Cons.prems(3) run by auto
  from fp_call_run_props[OF Cons.prems(1,2) nr run]
  have "tlb_ok cfg s1" "fp_counter cfg s \<le> fp_counter cfg s1" by simp_all
  moreover have "fp_counter cfg s1 \<le> fp_counter cfg s'"
    using Cons.IH[OF \<open>tlb_ok cfg s1\<close> Cons.prems(2) nc rest] .
  ultimately show ?case by simp
qed

lemma sint_small: "sint w = uint w" if "uint (w :: 32 word) < 2 ^ 31"
proof -
  have "- (2 ^ 31) \<le> uint w" by (rule order_trans[of _ 0]) simp_all
  then show ?thesis using that
    by (simp add: sint_uint signed_take_bit_int_eq_self_iff)
qed

lemma set_st_place_append:
  assumes ok: "tlb_ok cfg s"
    and k: "storage_flightplan_find_index_tlb cfg ST_FP_NULL s = Some (int k)"
      "int k < st_flightplan_entries s"
    and c: "0 \<le> sint (fp_counter cfg s)" "0 < commands_per_section cfg"
    and base: "table_get (st_flightplan_addr s) (sint (fp_counter cfg s) div commands_per_section cfg) = Some base"
    and a: "a = u32 (base + (sint (fp_counter cfg s) mod commands_per_section cfg) * 512)"
      "a + 512 \<le> flash_size cfg"
  shows "storage_flight_plan_set_st_place cfg r s = Some (SCH_ST_OK, fp_appended cfg r k a s)"
proof -
  have kn: "0 \<le> int k" "int k < int (SCH_FP_MAX_ENTRIES cfg)"
    using k(2) ok by (auto simp: tlb_ok_def)
  have a0: "0 \<le> a" unfolding a(1) u32_def by simp
  show ?thesis
    using k a0 a(2) c base
    by (simp add: storage_flight_plan_set_st_place_def tlb_ok_last[OF ok] Let_def
          update_tlb_ok[OF ok kn] storage_write_flash_def
          int_div_def int_rem_def c_div_nonneg c_mod_nonneg fp_appended_def fp_counter_def a(1))
qed

lemma demo_cfg_simps [simp]:
  "SCH_FP_MAX_ENTRIES demo_cfg = 5" "SCH_SIZE_PER_SECTION demo_cfg = 2048"
  "SCH_SECTIONS_PER_PAYLOAD demo_cfg = 2" "SCH_FLASH_INIT_MEMORY demo_cfg = 0"
  "SCH_COMM_NODE demo_cfg = 1" "SCH_STORAGE_TRIPLE_WR demo_cfg"
  "dat_status_last_address demo_cfg = 16" "dat_status_last_var demo_cfg = 16"
  "dat_fpl_queue demo_cfg = 7"
  "commands_per_section demo_cfg = 4" "flash_size demo_cfg = 524288"
  "sizeof_tlb demo_cfg = 48" "tlb_addr_start demo_cfg = 32720"
  by (simp_all add: demo_cfg_def commands_per_section_def c_div_def flash_size_def sizeof_tlb_def
        tlb_addr_start_def u32_def)

lemma demo_storage_simps [simp]:
  "storage_is_open demo_storage" "st_flightplan_addr demo_storage = Some [2048, 4096]"
  "st_flightplan_entries demo_storage = 5"
  "st_flightplan_tlb demo_storage =
     [\<lparr>addr = - 1, unixtime = - 1\<rparr>, \<lparr>addr = - 1, unixtime = - 1\<rparr>, \<lparr>addr = - 1, unixtime = - 1\<rparr>,
      \<lparr>addr = - 1, unixtime = - 1\<rparr>, \<lparr>addr = - 1, unixtime = - 1\<rparr>, \<lparr>addr = 0, unixtime = 0\<rparr>]"
  "flash_log demo_storage = [FlashErase 2048, FlashErase 4096]"
  by (simp_all add: demo_storage_def)

lemma fp_appended_simps [simp]:
  "storage_is_open (fp_appended cfg r k a s) = storage_is_open s"
  "st_flightplan_addr (fp_appended cfg r k a s) = st_flightplan_addr s"
  "st_flightplan_entries (fp_appended cfg r k a s) = st_flightplan_entries s"
  "st_payload_addr (fp_appended cfg r k a s) = st_payload_addr s"
  "st_payloads_entries (fp_appended cfg r k a s) = st_payloads_entries s"
  "st_flightplan_base_addr (fp_appended cfg r k a s) = st_flightplan_base_addr s"
  "st_flightplan_sections (fp_appended cfg r k a s) = st_flightplan_sections s"
  "flash_log (fp_appended cfg r k a s) = flash_log s @ [FlashWrite a 512]"
  "flash (fp_appended cfg r k a s) = write_mem (flash s) a (fp_container_bytes r)"
  by (simp_all add: fp_appended_def)

lemma demo_row_simps [simp]: "fp_unixtime (demo_row t) = t"
  by (simp add: demo_row_def)

lemma demo_tlbs:
  "st_flightplan_tlb demo_fp1 =
     [\<lparr>addr = 2048, unixtime = 500\<rparr>, \<lparr>addr = - 1, unixtime = - 1\<rparr>, \<lparr>addr = - 1, unixtime = - 1\<rparr>,
      \<lparr>addr = - 1, unixtime = - 1\<rparr>, \<lparr>addr = - 1, unixtime = - 1\<rparr>, \<lparr>addr = 1, unixtime = 0\<rparr>]"
  "st_flightplan_tlb demo_fp2 =
     [\<lparr>addr = 2048, unixtime = 500\<rparr>, \<lparr>addr = 2560, unixtime = 1500\<rparr>, \<lparr>addr = - 1, unixtime = - 1\<rparr>,
      \<lparr>addr = - 1, unixtime = - 1\<rparr>, \<lparr>addr = - 1, unixtime = - 1\<rparr>, \<lparr>addr = 2, unixtime = 0\<rparr>]"
  "st_flightplan_tlb demo_fp3 =
     [\<lparr>addr = 2048, unixtime = 500\<rparr>, \<lparr>addr = 2560, unixtime = 1500\<rparr>, \<lparr>addr = 3072, unixtime = 2500\<rparr>,
      \<lparr>addr = - 1, unixtime = - 1\<rparr>, \<lparr>addr = - 1, unixtime = - 1\<rparr>, \<lparr>addr = 3, unixtime = 0\<rparr>]"
  "st_flightplan_tlb demo_fp4 =
     [\<lparr>addr = 2048, unixtime = 500\<rparr>, \<lparr>addr = 2560, unixtime = 1500\<rparr>, \<lparr>addr = 3072, unixtime = 2500\<rparr>,
      \<lparr>addr = 3584, unixtime = 3500\<rparr>, \<lparr>addr = - 1, unixtime = - 1\<rparr>, \<lparr>addr = 4, unixtime = 0\<rparr>]"
  by (simp_all add: demo_fp1_def demo_fp2_def demo_fp3_def demo_fp4_def fp_appended_def fp_counter_def)

lemma demo_fields:
  "storage_is_open demo_fp1" "storage_is_open demo_fp2" "storage_is_open demo_fp3" "storage_is_open demo_fp4"
  "st_flightplan_addr demo_fp1 = Some [2048, 4096]" "st_flightplan_addr demo_fp2 = Some [2048, 4096]"
  "st_flightplan_addr demo_fp3 = Some [2048, 4096]" "st_flightplan_addr demo_fp4 = Some [2048, 4096]"
  "st_flightplan_entries demo_fp1 = 5" "st_flightplan_entries demo_fp2 = 5"
  "st_flightplan_entries demo_fp3 = 5" "st_flightplan_entries demo_fp4 = 5"
  by (simp_all add: demo_fp1_def demo_fp2_def demo_fp3_def demo_fp4_def)

lemma demo_tlb_ok:
  "tlb_ok demo_cfg demo_storage" "tlb_ok demo_cfg demo_fp1" "tlb_ok demo_cfg demo_fp2"
  "tlb_ok demo_cfg demo_fp3" "tlb_ok demo_cfg demo_fp4"
  by (simp_all add: tlb_ok_def demo_tlbs demo_fields)

lemma demo_section_ok: "section_ok demo_cfg"
  by (simp add: section_ok_def)

lemmas demo_eval = storage_flightplan_find_index_tlb_def upt_conv_Cons fp_counter_def demo_tlbs
  demo_fields table_get_def array_get_def u32_def rebuild_due_def

lemma demo_set_steps:
  "storage_flight_plan_set_st demo_cfg (Some (demo_row 500)) demo_storage = Some (SCH_ST_OK, demo_fp1)"
  "storage_flight_plan_set_st demo_cfg (Some (demo_row 1500)) demo_fp1 = Some (SCH_ST_OK, demo_fp2)"
  "storage_flight_plan_set_st demo_cfg (Some (demo_row 2500)) demo_fp2 = Some (SCH_ST_OK, demo_fp3)"
  "storage_flight_plan_set_st demo_cfg (Some (demo_row 3500)) demo_fp3 = Some (SCH_ST_OK, demo_fp4)"
proof -
  have nd: "\<not> rebuild_due demo_cfg demo_storage" "\<not> rebuild_due demo_cfg demo_fp1"
    "\<not> rebuild_due demo_cfg demo_fp2" "\<not> rebuild_due demo_cfg demo_fp3"
    by (simp_all add: demo_eval)
  have op: "storage_is_open demo_storage" "storage_is_open demo_fp1" "storage_is_open demo_fp2"
    "storage_is_open demo_fp3"
    by (simp_all add: demo_fields)
  show "storage_flight_plan_set_st demo_cfg (Some (demo_row 500)) demo_storage = Some (SCH_ST_OK, demo_fp1)"
    unfolding set_st_not_due[OF demo_tlb_ok(1) nd(1) op(1)] demo_fp1_def
    by (rule set_st_place_append[OF demo_tlb_ok(1), where base=2048]) (simp_all add: demo_eval)
  show "storage_flight_plan_set_st demo_cfg (Some (demo_row 1500)) demo_fp1 = Some (SCH_ST_OK, demo_fp2)"
    unfolding set_st_not_due[OF demo_tlb_ok(2) nd(2) op(2)] demo_fp2_def
    by (rule set_st_place_append[OF demo_tlb_ok(2), where base=2048]) (simp_all add: demo_eval)
  show "storage_flight_plan_set_st demo_cfg (Some (demo_row 2500)) demo_fp2 = Some (SCH_ST_OK, demo_fp3)"
    unfolding set_st_not_due[OF demo_tlb_ok(3) nd(3) op(3)] demo_fp3_def
    by (rule set_st_place_append[OF demo_tlb_ok(3), where base=2048]) (simp_all add: demo_eval)
  show "storage_flight_plan_set_st demo_cfg (Some (demo_row 3500)) demo_fp3 = Some (SCH_ST_OK, demo_fp4)"
    unfolding set_st_not_due[OF demo_tlb_ok(4) nd(4) op(4)] demo_fp4_def
    by (rule set_st_place_append[OF demo_tlb_ok(4), where base=2048]) (simp_all add: demo_eval)
qed

lemma fram_low_eq_refl [simp]: "fram_low_eq cfg m m"
  by (simp add: fram_low_eq_def)

lemma fram_low_eq_trans: "fram_low_eq cfg m m' \<Longrightarrow> fram_low_eq cfg m' m'' \<Longrightarrow> fram_low_eq cfg m m''"
  by (simp add: fram_low_eq_def)

lemma fram_low_eq_write:
  "tlb_addr_start cfg \<le> a \<Longrightarrow> fram_low_eq cfg m (write_mem m a bs)"
  by (simp add: fram_low_eq_def write_mem_def)

lemma same_tables_refl [simp]: "same_tables s s"
  by (simp add: same_tables_def)

lemma same_tables_trans: "same_tables s s' \<Longrightarrow> same_tables s' s'' \<Longrightarrow> same_tables s s''"
  by (simp add: same_tables_def)

lemma tlb_ok_same_tables: "tlb_ok cfg s \<Longrightarrow> same_tables s s' \<Longrightarrow> tlb_ok cfg s'"
  by (simp add: tlb_ok_def same_tables_def)

lemma fp_frame_refl [simp]: "fp_frame cfg s s"
  by (simp add: fp_frame_def)

lemma fp_frame_trans: "fp_frame cfg s s' \<Longrightarrow> fp_frame cfg s' s'' \<Longrightarrow> fp_frame cfg s s''"
  using fram_low_eq_trans same_tables_trans unfolding fp_frame_def by blast

lemma fp_frame_tlb_ok: "tlb_ok cfg s \<Longrightarrow> fp_frame cfg s s' \<Longrightarrow> tlb_ok cfg s'"
  using tlb_ok_same_tables unfolding fp_frame_def by blast

lemma write_fram_frame:
  assumes "storage_write_fram a bs s = Some (rc, s')" "tlb_addr_start cfg \<le> a"
  shows "fp_frame cfg s s'"
  using assms
  by (auto simp: storage_write_fram_def fp_frame_def same_tables_def fram_low_eq_write split: if_splits)

lemma write_flash_frame:
  assumes "storage_write_flash cfg a bs s = Some (rc, s')"
  shows "fp_frame cfg s s'"
  using assms
  by (auto simp: storage_write_flash_def fp_frame_def same_tables_def split: if_splits)

lemma erase_flash_frame:
  assumes "storage_erase_flash cfg a s = Some (rc, s')"
  shows "fp_frame cfg s s'"
  using assms
  by (auto simp: storage_erase_flash_def fp_frame_def same_tables_def Let_def split: if_splits)

lemma dump_tlb_frame:
  assumes ok: "tlb_ok cfg s" and run: "storage_flightplan_dump_tlb cfg k s = Some (rc, s')"
  shows "fp_frame cfg s s'"
proof (cases "k < 0")
  case True
  then show ?thesis using run write_fram_frame[of "tlb_addr_start cfg" _ s rc s' cfg]
    by (simp add: storage_flightplan_dump_tlb_def)
next
  case False
  then have k: "0 \<le> k" "k \<le> int (SCH_FP_MAX_ENTRIES cfg)"
    using run ok by (auto simp: storage_flightplan_dump_tlb_def array_get_def tlb_ok_def split: Option.bind_splits if_splits)
  have "0 \<le> k * 8" using k by simp
  then show ?thesis using run unfolding dump_tlb_slot[OF ok k]
    by (auto simp: fp_frame_def same_tables_def fram_low_eq_write)
qed

lemma update_tlb_frame:
  assumes ok: "tlb_ok cfg s" and k: "0 \<le> k" "k < int (SCH_FP_MAX_ENTRIES cfg)"
    and run: "storage_flightplan_update_tlb cfg k ut a s = Some (rc, s')"
  shows "fp_frame cfg s s'"
proof -
  have len: "length (st_flightplan_tlb s) = Suc (SCH_FP_MAX_ENTRIES cfg)"
    using ok by (simp add: tlb_ok_def)
  have z: "0 \<le> k * 8" "tlb_addr_start cfg \<le> tlb_addr_start cfg + int (SCH_FP_MAX_ENTRIES cfg) * 8"
    using k by simp_all
  show ?thesis
    using run z unfolding update_tlb_ok[OF ok k]
    by (auto simp: fp_frame_def same_tables_def len fram_low_eq_def write_mem_def)
qed

lemma rebuild_step_frame:
  assumes ok: "tlb_ok cfg s" and i: "i < SCH_FP_MAX_ENTRIES cfg"
    and run: "flight_plan_rebuild_step cfg buf addr0 i (rc, s) = Some (rc', s')"
  shows "fp_frame cfg s s'"
proof (cases "unixtime (st_flightplan_tlb s ! i) = ST_FP_NULL")
  case True
  then show ?thesis
    using run ok i by (auto simp: flight_plan_rebuild_step_def array_get_def tlb_ok_def split: Option.bind_splits if_splits)
next
  case False
  have e: "array_get (st_flightplan_tlb s) (int i) = Some (st_flightplan_tlb s ! i)"
    using ok i by (simp add: array_get_def tlb_ok_def)
  from run False obtain ut a x fp_entry rc1 s1 rc2 where
    u: "storage_flightplan_update_tlb cfg (int i) ut a s = Some (rc1, s1)"
    and w: "storage_write_flash cfg x fp_entry s1 = Some (rc2, s')"
    by (auto simp: flight_plan_rebuild_step_def e Let_def split: Option.bind_splits if_splits)
  have "fp_frame cfg s s1" using update_tlb_frame[OF ok _ _ u] i by simp
  moreover have "fp_frame cfg s1 s'" using write_flash_frame[OF w] .
  ultimately show ?thesis by (rule fp_frame_trans)
qed

lemma rebuild_loop_frame:
  assumes "tlb_ok cfg s" "\<forall>i \<in> set is. i < SCH_FP_MAX_ENTRIES cfg"
    and "flight_plan_rebuild_loop cfg buf addr0 is (rc, s) = Some (rc', s')"
  shows "fp_frame cfg s s'"
  using assms
proof (induction "is" arbitrary: rc s)
  case Nil
  then show ?case by simp
next
  case (Cons i "is")
  from Cons.prems(3) obtain rc1 s1 where
    st: "flight_plan_rebuild_step cfg buf addr0 i (rc, s) = Some (rc1, s1)"
    and rest: "flight_plan_rebuild_loop cfg buf addr0 is (rc1, s1) = Some (rc', s')"
    by (auto split: Option.bind_splits)
  have f1: "fp_frame cfg s s1"
    using rebuild_step_frame[OF Cons.prems(1) _ st] Cons.prems(2) by simp
  have "fp_frame cfg s1 s'"
    using Cons.IH[OF fp_frame_tlb_ok[OF Cons.prems(1) f1] _ rest] Cons.prems(2) by simp
  with f1 show ?case by (rule fp_frame_trans)
qed

lemma rebuild_frame:
  assumes ok: "tlb_ok cfg s" and run: "flight_plan_rebuild_tlb cfg s = Some (rc, s')"
  shows "fp_frame cfg s s'"
proof -
  from run obtain addr0 rc2 s1 rc12 rc3 s3 rc4 buf where
    e: "storage_erase_flash cfg addr0 s = Some (rc2, s1)"
    and l: "flight_plan_rebuild_loop cfg buf addr0 [0..<SCH_FP_MAX_ENTRIES cfg]
              (rc12, s1\<lparr>st_flightplan_tlb := (st_flightplan_tlb s1)[SCH_FP_MAX_ENTRIES cfg := \<lparr>addr = 0, unixtime = 0\<rparr>]\<rparr>)
            = Some (rc3, s3)"
    and d: "storage_flightplan_dump_tlb cfg (- 1) s3 = Some (rc4, s')"
    by (auto simp: flight_plan_rebuild_tlb_def Let_def split: Option.bind_splits)
  let ?s2 = "s1\<lparr>st_flightplan_tlb := (st_flightplan_tlb s1)[SCH_FP_MAX_ENTRIES cfg := \<lparr>addr = 0, unixtime = 0\<rparr>]\<rparr>"
  have f1: "fp_frame cfg s s1" using erase_flash_frame[OF e] .
  have f2: "fp_frame cfg s1 ?s2" by (simp add: fp_frame_def same_tables_def)
  have ok2: "tlb_ok cfg ?s2" using ok f1 f2 fp_frame_tlb_ok by blast
  have f3: "fp_frame cfg ?s2 s3" using rebuild_loop_frame[OF ok2 _ l] by simp
  have ok3: "tlb_ok cfg s3" using ok2 f3 fp_frame_tlb_ok by blast
  have f4: "fp_frame cfg s3 s'" using dump_tlb_frame[OF ok3 d] .
  show ?thesis using f1 f2 f3 f4 fp_frame_trans by blast
qed

lemma set_st_place_frame:
  assumes ok: "tlb_ok cfg s" and run: "storage_flight_plan_set_st_place cfg r s = Some (rc, s')"
  shows "fp_frame cfg s s'"
proof -
  from set_st_place_cases[OF ok run]
  consider "s' = s" | k a where "k < SCH_FP_MAX_ENTRIES cfg" "s' = fp_appended cfg r k a s"
    by blast
  then show ?thesis
  proof cases
    case 1
    then show ?thesis by simp
  next
    case 2
    have "tlb_addr_start cfg \<le> tlb_addr_start cfg + int k * 8"
      "tlb_addr_start cfg \<le> tlb_addr_start cfg + int (SCH_FP_MAX_ENTRIES cfg) * 8" by simp_all
    then show ?thesis
      using 2 ok by (auto simp: fp_frame_def same_tables_def fp_appended_def fram_low_eq_def write_mem_def tlb_ok_def)
  qed
qed

lemma set_st_frame:
  assumes ok: "tlb_ok cfg s" and run: "storage_flight_plan_set_st cfg row s = Some (rc, s')"
  shows "fp_frame cfg s s'"
proof (cases row)
  case None
  then show ?thesis using run by (simp add: storage_flight_plan_set_st_def)
next
  case (Some r)
  show ?thesis
  proof (cases "storage_is_open s")
    case False
    then show ?thesis using run Some by (simp add: storage_flight_plan_set_st_def)
  next
    case True
    from run Some True obtain s1 where
      s1: "s1 = s \<or> (\<exists>rc1. flight_plan_rebuild_tlb cfg s = Some (rc1, s1))"
      and pl: "storage_flight_plan_set_st_place cfg r s1 = Some (rc, s')"
      by (auto simp: storage_flight_plan_set_st_def split: Option.bind_splits if_splits)
    have f1: "fp_frame cfg s s1" using s1 rebuild_frame[OF ok] by auto
    have "fp_frame cfg s1 s'" using set_st_place_frame[OF fp_frame_tlb_ok[OF ok f1] pl] .
    with f1 show ?thesis by (rule fp_frame_trans)
  qed
qed

lemma set_frame:
  assumes ok: "tlb_ok cfg s" and run: "storage_flight_plan_set cfg t c a e p n s = Some (rc, s')"
  shows "fp_frame cfg s s'"
  using run set_st_frame[OF ok, of _ rc s']
  by (auto simp: storage_flight_plan_set_def split: option.splits if_splits)

lemma delete_row_idx_frame:
  assumes ok: "tlb_ok cfg s" and run: "storage_flight_plan_delete_row_idx cfg k s = Some (rc, s')"
  shows "fp_frame cfg s s'"
proof -
  consider "k < 0 \<or> k \<ge> st_flightplan_entries s" | "0 \<le> k" "k < st_flightplan_entries s"
    by linarith
  then show ?thesis
  proof cases
    case 1
    then have "s' = s" using run
      by (auto simp: storage_flight_plan_delete_row_idx_def flight_plan_erase_index_tlb_def split: if_splits)
    then show ?thesis by simp
  next
    case 2
    have "tlb_addr_start cfg \<le> tlb_addr_start cfg + k * 8" using 2 by simp
    then show ?thesis
      using run 2 ok unfolding storage_flight_plan_delete_row_idx_def erase_index_tlb_ok[OF ok 2]
      by (auto simp: fp_frame_def same_tables_def fram_low_eq_write)
  qed
qed

lemma delete_row_frame:
  assumes ok: "tlb_ok cfg s" and run: "storage_flight_plan_delete_row cfg t s = Some (rc, s')"
  shows "fp_frame cfg s s'"
  using run delete_row_idx_frame[OF ok, of _ rc s']
  by (auto simp: storage_flight_plan_delete_row_def split: Option.bind_splits if_splits)

lemma reset_loop_frame:
  assumes "flight_plan_reset_loop cfg is (rc, s) = Some (rc', s')"
  shows "fp_frame cfg s s'"
  using assms
proof (induction "is" arbitrary: rc s)
  case Nil
  then show ?case by simp
next
  case (Cons i "is")
  from Cons.prems obtain a res s1 where
    e: "storage_erase_flash cfg a s = Some (res, s1)"
    and rest: "flight_plan_reset_loop cfg is (rc + res, s1) = Some (rc', s')"
    by (auto split: Option.bind_splits)
  show ?case
    using erase_flash_frame[OF e] Cons.IH[OF rest] by (rule fp_frame_trans)
qed

lemma reset_frame:
  assumes ok: "tlb_ok cfg s" and run: "storage_flight_plan_reset cfg s = Some (rc, s')"
  shows "fp_frame cfg s s'"
proof (cases "\<not> storage_is_open s \<or> st_payload_addr s = None")
  case True
  then show ?thesis using run by (auto simp: storage_flight_plan_reset_def)
next
  case False
  let ?tlb = "replicate (SCH_FP_MAX_ENTRIES cfg) \<lparr>addr = ST_FP_NULL, unixtime = ST_FP_NULL\<rparr> @ [\<lparr>addr = 0, unixtime = 0\<rparr>]"
  from run False obtain rc1 s1 rc2 where
    l: "flight_plan_reset_loop cfg [0..st_flightplan_sections s - 1] (SCH_ST_OK, s) = Some (rc1, s1)"
    and d: "storage_flightplan_dump_tlb cfg (- 1) (s1\<lparr>st_flightplan_tlb := ?tlb\<rparr>) = Some (rc2, s')"
    by (auto simp: storage_flight_plan_reset_def Let_def split: Option.bind_splits)
  have f1: "fp_frame cfg s s1" using reset_loop_frame[OF l] .
  have ok1: "tlb_ok cfg s1" using fp_frame_tlb_ok[OF ok f1] .
  have f2: "fp_frame cfg s1 (s1\<lparr>st_flightplan_tlb := ?tlb\<rparr>)"
    using ok1 by (simp add: fp_frame_def same_tables_def tlb_ok_def)
  have f3: "fp_frame cfg (s1\<lparr>st_flightplan_tlb := ?tlb\<rparr>) s'"
    using dump_tlb_frame[OF fp_frame_tlb_ok[OF ok1 f2] d] .
  show ?thesis using f1 f2 f3 fp_frame_trans by blast
qed

lemma slot_low:
  assumes "fram_low_eq cfg m m'" "j * 4 + 4 \<le> tlb_addr_start cfg"
  shows "slot m' j = slot m j"
proof -
  have "read_mem m' (j * 4) 4 = read_mem m (j * 4) 4"
    using assms by (auto simp: read_mem_def fram_low_eq_def)
  then show ?thesis by (simp add: slot_def)
qed

lemma status_get_low:
  assumes st: "status_ok cfg" and low: "fram_low_eq cfg (fram s) (fram s')"
  shows "dat_get_system_var cfg (dat_fpl_queue cfg) s' = dat_get_system_var cfg (dat_fpl_queue cfg) s"
    and "\<exists>v. dat_get_system_var cfg (dat_fpl_queue cfg) s = Some v"
proof -
  let ?q = "dat_fpl_queue cfg" and ?N = "dat_status_last_var cfg"
  have r: "0 \<le> ?q" "0 \<le> ?q + ?N" "0 \<le> ?q + ?N * 2"
    "?q * 4 + 4 \<le> tlb_addr_start cfg" "(?q + ?N) * 4 + 4 \<le> tlb_addr_start cfg"
    "(?q + ?N * 2) * 4 + 4 \<le> tlb_addr_start cfg" "tlb_addr_start cfg \<le> ST_FRAM_SIZE"
    using st by (auto simp: status_ok_def)
  then have r': "?q * 4 + 4 \<le> ST_FRAM_SIZE" "(?q + ?N) * 4 + 4 \<le> ST_FRAM_SIZE"
    "(?q + ?N * 2) * 4 + 4 \<le> ST_FRAM_SIZE" by linarith+
  have g: "storage_status_get_value_idx ?q t = Some (SCH_ST_OK, slot (fram t) ?q)"
    "storage_status_get_value_idx (?q + ?N) t = Some (SCH_ST_OK, slot (fram t) (?q + ?N))"
    "storage_status_get_value_idx (?q + ?N * 2) t = Some (SCH_ST_OK, slot (fram t) (?q + ?N * 2))" for t
    using r(1-3) r' by (simp_all add: status_get_at)
  have e: "slot (fram s') ?q = slot (fram s) ?q" "slot (fram s') (?q + ?N) = slot (fram s) (?q + ?N)"
    "slot (fram s') (?q + ?N * 2) = slot (fram s) (?q + ?N * 2)"
    using slot_low[OF low] r(4-6) by simp_all
  show "dat_get_system_var cfg ?q s' = dat_get_system_var cfg ?q s"
    by (simp add: dat_get_system_var_def dat_get_status_var_def g e)
  show "\<exists>v. dat_get_system_var cfg ?q s = Some v"
    by (simp add: dat_get_system_var_def dat_get_status_var_def g)
qed

lemma status_set_get:
  assumes st: "status_ok cfg"
  shows "\<exists>m. dat_set_system_var cfg (dat_fpl_queue cfg) v s = Some (SCH_ST_OK, s\<lparr>fram := m\<rparr>)
           \<and> dat_get_system_var cfg (dat_fpl_queue cfg) (s\<lparr>fram := m\<rparr>) = Some v"
proof -
  let ?q = "dat_fpl_queue cfg" and ?N = "dat_status_last_var cfg"
  have r: "0 \<le> ?q" "0 \<le> ?q + ?N" "0 \<le> ?q + ?N * 2" "0 < ?N"
    "?q * 4 + 4 \<le> ST_FRAM_SIZE" "(?q + ?N) * 4 + 4 \<le> ST_FRAM_SIZE"
    "(?q + ?N * 2) * 4 + 4 \<le> ST_FRAM_SIZE" "dat_status_last_address cfg = ?N"
    using st by (auto simp: status_ok_def)
  have g: "storage_status_get_value_idx ?q t = Some (SCH_ST_OK, slot (fram t) ?q)"
    "storage_status_get_value_idx (?q + ?N) t = Some (SCH_ST_OK, slot (fram t) (?q + ?N))"
    "storage_status_get_value_idx (?q + ?N * 2) t = Some (SCH_ST_OK, slot (fram t) (?q + ?N * 2))" for t
    using r by (simp_all add: status_get_at)
  have w: "storage_status_set_value_idx ?q v t = Some (SCH_ST_OK, t\<lparr>fram := write_mem (fram t) (?q * 4) (le32 v)\<rparr>)"
    "storage_status_set_value_idx (?q + ?N) v t = Some (SCH_ST_OK, t\<lparr>fram := write_mem (fram t) ((?q + ?N) * 4) (le32 v)\<rparr>)"
    "storage_status_set_value_idx (?q + ?N * 2) v t = Some (SCH_ST_OK, t\<lparr>fram := write_mem (fram t) ((?q + ?N * 2) * 4) (le32 v)\<rparr>)" for t
    using r by (simp_all add: status_set_at)
  show ?thesis
  proof (cases "SCH_STORAGE_TRIPLE_WR cfg")
    case True
    define m where "m = write_mem (write_mem (write_mem (fram s) (?q * 4) (le32 v)) ((?q + ?N) * 4) (le32 v))
                ((?q + ?N * 2) * 4) (le32 v)"
    have a: "slot m ?q = v" "slot m (?q + ?N) = v" "slot m (?q + ?N * 2) = v"
      unfolding m_def
      using slots_after_set[OF r(4), of 0 "fram s" ?q v] slots_after_set[OF r(4), of 1 "fram s" ?q v]
        slots_after_set[OF r(4), of 2 "fram s" ?q v] by simp_all
    have "dat_set_system_var cfg ?q v s = Some (SCH_ST_OK, s\<lparr>fram := m\<rparr>)"
      using True by (simp add: dat_set_system_var_def dat_set_status_var_def w r(8) m_def)
    moreover have "dat_get_system_var cfg ?q (s\<lparr>fram := m\<rparr>) = Some v"
      using True by (simp add: dat_get_system_var_def dat_get_status_var_def g a)
    ultimately show ?thesis by blast
  next
    case False
    let ?m = "write_mem (fram s) (?q * 4) (le32 v)"
    have "dat_set_system_var cfg ?q v s = Some (SCH_ST_OK, s\<lparr>fram := ?m\<rparr>)"
      using False by (simp add: dat_set_system_var_def dat_set_status_var_def w)
    moreover have "dat_get_system_var cfg ?q (s\<lparr>fram := ?m\<rparr>) = Some v"
      using False by (simp add: dat_get_system_var_def dat_get_status_var_def g)
    ultimately show ?thesis by blast
  qed
qed

lemma counter_after:
  assumes st: "status_ok cfg" and fr: "fp_frame cfg s s1"
    and e: "dat_get_system_var cfg (dat_fpl_queue cfg) s = Some entries"
  shows "dat_get_system_var cfg (dat_fpl_queue cfg) s1 = Some entries"
    and "\<exists>s2. dat_set_system_var cfg (dat_fpl_queue cfg) v s1 = Some (SCH_ST_OK, s2)
           \<and> dat_get_system_var cfg (dat_fpl_queue cfg) s2 = Some v"
  using status_get_low(1)[OF st, of s s1] fr e status_set_get[OF st, of v s1]
  by (auto simp: fp_frame_def)

lemma dat_set_fp_counter:
  assumes ok: "tlb_ok cfg s" and st: "status_ok cfg"
    and e: "dat_get_system_var cfg (dat_fpl_queue cfg) s = Some entries"
    and run: "dat_set_fp cfg t c a ex p s = Some (rc, s')"
  shows "map_option fst (storage_flight_plan_set cfg t c a ex p (SCH_COMM_NODE cfg) s) = Some rc"
    and "dat_get_system_var cfg (dat_fpl_queue cfg) s' = Some (if rc = SCH_ST_OK then entries + 1 else entries)"
proof -
  from run e obtain s1 where
    u: "storage_flight_plan_set cfg t c a ex p (SCH_COMM_NODE cfg) s = Some (rc, s1)"
    and r: "if rc = SCH_ST_OK
            then (\<exists>rc'. dat_set_system_var cfg (dat_fpl_queue cfg) (entries + 1) s1 = Some (rc', s'))
            else s' = s1"
    by (auto simp: dat_set_fp_def split: Option.bind_splits if_splits)
  show "map_option fst (storage_flight_plan_set cfg t c a ex p (SCH_COMM_NODE cfg) s) = Some rc"
    using u by simp
  note c = counter_after[OF st set_frame[OF ok u] e]
  show "dat_get_system_var cfg (dat_fpl_queue cfg) s' = Some (if rc = SCH_ST_OK then entries + 1 else entries)"
    using r c(1) c(2)[of "entries + 1"] by (auto split: if_splits)
qed

lemma dat_del_fp_counter:
  assumes ok: "tlb_ok cfg s" and st: "status_ok cfg"
    and e: "dat_get_system_var cfg (dat_fpl_queue cfg) s = Some entries"
    and run: "dat_del_fp cfg t s = Some (rc, s')"
  shows "map_option fst (storage_flight_plan_delete_row cfg t s) = Some rc"
    and "dat_get_system_var cfg (dat_fpl_queue cfg) s' = Some (if rc = SCH_ST_OK then entries - 1 else entries)"
proof -
  from run e obtain s1 where
    u: "storage_flight_plan_delete_row cfg t s = Some (rc, s1)"
    and r: "if rc = SCH_ST_OK
            then (\<exists>rc'. dat_set_system_var cfg (dat_fpl_queue cfg) (entries - 1) s1 = Some (rc', s'))
            else s' = s1"
    by (auto simp: dat_del_fp_def split: Option.bind_splits if_splits)
  show "map_option fst (storage_flight_plan_delete_row cfg t s) = Some rc"
    using u by simp
  note c = counter_after[OF st delete_row_frame[OF ok u] e]
  show "dat_get_system_var cfg (dat_fpl_queue cfg) s' = Some (if rc = SCH_ST_OK then entries - 1 else entries)"
    using r c(1) c(2)[of "entries - 1"] by (auto split: if_splits)
qed

lemma dat_reset_fp_counter:
  assumes ok: "tlb_ok cfg s" and st: "status_ok cfg"
    and e: "dat_get_system_var cfg (dat_fpl_queue cfg) s = Some entries"
    and run: "dat_reset_fp cfg s = Some (rc, s')"
  shows "map_option fst (storage_flight_plan_reset cfg s) = Some rc"
    and "dat_get_system_var cfg (dat_fpl_queue cfg) s' = Some (if rc = SCH_ST_OK then 0 else entries)"
proof -
  from run e obtain s1 where
    u: "storage_flight_plan_reset cfg s = Some (rc, s1)"
    and r: "if rc = SCH_ST_OK
            then (\<exists>rc'. dat_set_system_var cfg (dat_fpl_queue cfg) 0 s1 = Some (rc', s'))
            else s' = s1"
    by (auto simp: dat_reset_fp_def split: Option.bind_splits if_splits)
  show "map_option fst (storage_flight_plan_reset cfg s) = Some rc"
    using u by simp
  note c = counter_after[OF st reset_frame[OF ok u] e]
  show "dat_get_system_var cfg (dat_fpl_queue cfg) s' = Some (if rc = SCH_ST_OK then 0 else entries)"
    using r c(1) c(2)[of 0] by (auto split: if_splits)
qed

lemma dat_get_fp_counter:
  assumes ok: "tlb_ok cfg s" and st: "status_ok cfg"
    and e: "dat_get_system_var cfg (dat_fpl_queue cfg) s = Some entries"
    and run: "dat_get_fp cfg t out_ok s = Some (rc, row, s')"
  shows "rc = SCH_ST_OK \<longleftrightarrow>
           (\<exists>r. storage_flight_plan_get_args cfg t out_ok s = Some (SCH_ST_OK, r))
           \<and> (\<exists>s1. storage_flight_plan_delete_row cfg t s = Some (SCH_ST_OK, s1))"
    and "dat_get_system_var cfg (dat_fpl_queue cfg) s' = Some (if rc = SCH_ST_OK then entries - 1 else entries)"
proof -
  from run e obtain rc0 s1 where
    g: "storage_flight_plan_get_args cfg t out_ok s = Some (rc0, row)"
    and d: "if rc0 = SCH_ST_OK then storage_flight_plan_delete_row cfg t s = Some (rc, s1)
            else rc = rc0 \<and> s1 = s"
    and r: "if rc = SCH_ST_OK
            then (\<exists>rc'. dat_set_system_var cfg (dat_fpl_queue cfg) (entries - 1) s1 = Some (rc', s'))
            else s' = s1"
    by (auto simp: dat_get_fp_def split: Option.bind_splits if_splits)
  show "rc = SCH_ST_OK \<longleftrightarrow>
           (\<exists>r. storage_flight_plan_get_args cfg t out_ok s = Some (SCH_ST_OK, r))
           \<and> (\<exists>s1. storage_flight_plan_delete_row cfg t s = Some (SCH_ST_OK, s1))"
    using g d by (auto split: if_splits)
  have fr: "fp_frame cfg s s1"
    using d delete_row_frame[OF ok, of t rc s1] by (auto split: if_splits)
  note c = counter_after[OF st fr e]
  show "dat_get_system_var cfg (dat_fpl_queue cfg) s' = Some (if rc = SCH_ST_OK then entries - 1 else entries)"
    using r c(1) c(2)[of "entries - 1"] by (auto split: if_splits)
qed

lemma dat_fp_defined:
  assumes st: "status_ok cfg"
  shows "storage_flight_plan_set cfg t c a e p (SCH_COMM_NODE cfg) s \<noteq> None
           \<Longrightarrow> dat_set_fp cfg t c a e p s \<noteq> None"
    and "storage_flight_plan_get_args cfg t out_ok s \<noteq> None
           \<Longrightarrow> storage_flight_plan_delete_row cfg t s \<noteq> None
           \<Longrightarrow> dat_get_fp cfg t out_ok s \<noteq> None"
    and "storage_flight_plan_delete_row cfg t s \<noteq> None \<Longrightarrow> dat_del_fp cfg t s \<noteq> None"
    and "storage_flight_plan_reset cfg s \<noteq> None \<Longrightarrow> dat_reset_fp cfg s \<noteq> None"
proof -
  obtain v where v: "dat_get_system_var cfg (dat_fpl_queue cfg) s = Some v"
    using status_get_low(2)[OF st fram_low_eq_refl] by blast
  have w: "\<exists>m. dat_set_system_var cfg (dat_fpl_queue cfg) x s1 = Some (SCH_ST_OK, s1\<lparr>fram := m\<rparr>)"
    for x s1
    using status_set_get[OF st, of x s1] by blast
  show "dat_set_fp cfg t c a e p s \<noteq> None"
    if "storage_flight_plan_set cfg t c a e p (SCH_COMM_NODE cfg) s \<noteq> None"
  proof -
    from that obtain rc s1 where
      r: "storage_flight_plan_set cfg t c a e p (SCH_COMM_NODE cfg) s = Some (rc, s1)" by auto
    from w[of "v + 1" s1] show ?thesis by (auto simp: dat_set_fp_def v r)
  qed
  show "dat_del_fp cfg t s \<noteq> None" if "storage_flight_plan_delete_row cfg t s \<noteq> None"
  proof -
    from that obtain rc s1 where
      r: "storage_flight_plan_delete_row cfg t s = Some (rc, s1)" by auto
    from w[of "v - 1" s1] show ?thesis by (auto simp: dat_del_fp_def v r)
  qed
  show "dat_reset_fp cfg s \<noteq> None" if "storage_flight_plan_reset cfg s \<noteq> None"
  proof -
    from that obtain rc s1 where
      r: "storage_flight_plan_reset cfg s = Some (rc, s1)" by auto
    from w[of 0 s1] show ?thesis by (auto simp: dat_reset_fp_def r)
  qed
  show "dat_get_fp cfg t out_ok s \<noteq> None"
    if "storage_flight_plan_get_args cfg t out_ok s \<noteq> None"
      and "storage_flight_plan_delete_row cfg t s \<noteq> None"
  proof -
    from that obtain rc row rc1 s1 where
      g: "storage_flight_plan_get_args cfg t out_ok s = Some (rc, row)"
      and r: "storage_flight_plan_delete_row cfg t s = Some (rc1, s1)" by auto
    from w[of "v - 1" s1] w[of "v - 1" s] show ?thesis by (auto simp: dat_get_fp_def v r g)
  qed
qed

lemma demo_storage_payload_simps [simp]:
  "st_payload_addr demo_storage = Some [6144, 8192, 10240, 12288]"
  "st_payloads_entries demo_storage = 2" "st_flightplan_base_addr demo_storage = 2048"
  "flash demo_storage = (\<lambda>x. 0)"
  by (simp_all add: demo_storage_def)

lemmas payload_eval = get_sample_address_def int_div_def c_div_def c_mod_def table_get_def array_get_def
  u32_def Let_def storage_payload_set_data_def write_data_with_check_def check_address_alignment_def
  storage_write_flash_def storage_payload_get_data_def read_data_with_check_def storage_read_flash_def

lemma demo_addr_0: "get_sample_address demo_cfg 0 0 200 demo_storage = Some (SCH_ST_OK, Some 6144)"
  by (simp add: payload_eval)
lemma demo_addr_1: "get_sample_address demo_cfg 0 1 200 demo_storage = Some (SCH_ST_OK, Some 6344)"
  by (simp add: payload_eval)
lemma demo_addr_2: "get_sample_address demo_cfg 0 2 200 demo_storage = Some (SCH_ST_OK, Some 6656)"
  by (simp add: payload_eval)
lemma demo_addr_8: "get_sample_address demo_cfg 0 8 200 demo_storage = Some (SCH_ST_OK, Some 10240)"
  by (simp add: payload_eval)
lemma demo_addr_p1: "get_sample_address demo_cfg 1 0 200 demo_storage = Some (SCH_ST_OK, Some 10240)"
  by (simp add: payload_eval)
lemma demo_spec_8: "sample_address_spec demo_cfg [6144, 8192, 10240, 12288] 0 8 200 = 8192"
  by (simp add: sample_address_spec_def)

lemma payload_set_at:
  fixes i x y :: int
  assumes opn: "storage_is_open s"
    and tbl: "table_get (st_payload_addr s) (p * SCH_SECTIONS_PER_PAYLOAD cfg) = Some base"
    and pages: "2 \<le> SCH_SIZE_PER_SECTION cfg div 512"
    and K: "0 \<le> SCH_SECTIONS_PER_PAYLOAD cfg"
    and idx: "p * SCH_SECTIONS_PER_PAYLOAD cfg \<le> st_payloads_entries s * SCH_SECTIONS_PER_PAYLOAD cfg"
    and al: "base = 512 * b" "0 \<le> b"
    and fl: "base + 1024 \<le> flash_size cfg" "base + 1024 \<le> 2 ^ 32"
    and sch: "dm_size sch = 200" and len: "200 \<le> length d"
    and i: "i = 2 * x + y" "x \<in> {0, 1}" "y \<in> {0, 1}"
    and bound: "base + x * 512 + y * 200
                 \<le> u32 (SCH_FLASH_INIT_MEMORY cfg + st_flightplan_base_addr s
                       + st_payloads_entries s * SCH_SECTIONS_PER_PAYLOAD cfg * SCH_SIZE_PER_SECTION cfg)"
  shows "storage_payload_set_data cfg p i (Some d) (Some sch) s =
           Some (SCH_ST_OK,
             s\<lparr>flash := write_mem (flash s) (base + x * 512 + y * 200) (take 200 d),
               flash_log := flash_log s @ [FlashWrite (base + x * 512 + y * 200) 200]\<rparr>)"
proof -
  let ?pis = "SCH_SIZE_PER_SECTION cfg div 512"
  have sec: "0 < SCH_SIZE_PER_SECTION cfg"
    using pages by (cases "0 < SCH_SIZE_PER_SECTION cfg") (auto simp: div_nonpos_pos_le0 dest: zdiv_mono1)
  have pis: "c_div (SCH_SIZE_PER_SECTION cfg) 512 = ?pis"
    using sec by (simp add: c_div_nonneg)
  have i03: "0 \<le> i" "i < 4" "i div 2 = x" "i mod 2 = y" using i by auto
  have sps: "0 < 2 * ?pis" "i < 2 * ?pis" using pages i03 by auto
  have sect: "c_div i (2 * ?pis) = 0"
    using sps i03 by (simp add: c_div_nonneg div_pos_pos_trivial)
  have xy: "c_div i 2 = x" "c_mod i 2 = y"
    using i03 by (simp_all add: c_div_nonneg c_mod_nonneg)
  let ?a = "base + x * 512 + y * 200"
  have a: "0 \<le> ?a" "?a \<le> base + 712" "?a + 200 \<le> base + 912" using i al by auto
  have ua: "u32 ?a = ?a" using a fl by (intro u32_id) auto
  have ua2: "u32 (?a + 200) = ?a + 200" using a fl by (intro u32_id) auto
  have d1: "?a div 512 = b + x" using i al by auto
  have d2: "(?a + 200) div 512 = b + x" using i al by auto
  have addr: "get_sample_address cfg p i 200 s = Some (SCH_ST_OK, Some ?a)"
    using K idx tbl bound a sps
    by (simp add: get_sample_address_def int_div_def pis sect xy Let_def ua c_div_def[of 512 200])
  have chk: "check_address_alignment ?a 200 = SCH_ST_OK"
    using ua2 d1 d2 by (simp add: check_address_alignment_def)
  have tbl': "st_payload_addr s \<noteq> None" using tbl by (auto simp: table_get_def split: option.splits)
  show ?thesis
    using opn tbl' addr chk len a fl
    by (simp add: storage_payload_set_data_def sch write_data_with_check_def storage_write_flash_def)
qed

lemma int_mult_div_le: "0 < d \<Longrightarrow> d * (i div d) \<le> (i::int)"
proof -
  assume d: "0 < d"
  have "d * (i div d) + i mod d = i" by simp
  moreover have "0 \<le> i mod d" using d by simp
  ultimately show ?thesis by linarith
qed

lemma int_div_less_mult: "0 < d \<Longrightarrow> i < d * n \<Longrightarrow> i div d < (n::int)"
proof (rule ccontr)
  assume d: "0 < d" and i: "i < d * n" and "\<not> i div d < n"
  then have "d * n \<le> d * (i div d)" by (intro mult_left_mono) auto
  also have "\<dots> \<le> i" using d by (rule int_mult_div_le)
  finally show False using i by simp
qed

lemma sample_address_first_section:
  fixes sz i :: int
  assumes sz: "0 < sz" "sz \<le> 512" and sec: "512 \<le> SCH_SIZE_PER_SECTION cfg"
    and i: "0 \<le> i" "i < (512 div sz) * (SCH_SIZE_PER_SECTION cfg div 512)"
    and tbl: "st_payload_addr s = Some tbl"
    and nowrap: "\<forall>b\<in>set tbl. 0 \<le> b \<and> b + SCH_SIZE_PER_SECTION cfg \<le> 2 ^ 32"
    and run: "get_sample_address cfg p i (nat sz) s = Some (SCH_ST_OK, Some a)"
  shows "a = sample_address_spec cfg tbl p i sz"
proof -
  let ?spp = "512 div sz" and ?pis = "SCH_SIZE_PER_SECTION cfg div 512"
  have spp: "0 < ?spp" using sz by (simp add: pos_imp_zdiv_pos_iff)
  have pis: "0 < ?pis" using sec by (simp add: pos_imp_zdiv_pos_iff)
  have c1: "c_div 512 sz = ?spp" using sz by (simp add: c_div_nonneg)
  have c2: "c_div (SCH_SIZE_PER_SECTION cfg) 512 = ?pis" using sec by (simp add: c_div_nonneg)
  have c3: "c_div i ?spp = i div ?spp" "c_mod i ?spp = i mod ?spp"
    using i spp by (simp_all add: c_div_nonneg c_mod_nonneg)
  have sps: "0 < ?spp * ?pis" using spp pis by simp
  have c4: "c_div i (?spp * ?pis) = 0" "i div (?spp * ?pis) = 0"
    using i sps by (simp_all add: c_div_nonneg div_pos_pos_trivial)
  have page: "0 \<le> i div ?spp" "i div ?spp < ?pis"
    using i spp by (simp_all add: pos_imp_zdiv_nonneg_iff int_div_less_mult)
  then have pm: "(i div ?spp) mod ?pis = i div ?spp" by simp
  have inpage: "0 \<le> (i mod ?spp) * sz" "(i mod ?spp) * sz < 512"
  proof -
    have m: "0 \<le> i mod ?spp" "i mod ?spp \<le> ?spp - 1" using spp by (simp_all add: zle_diff1_eq)
    show "0 \<le> (i mod ?spp) * sz" using m sz by simp
    have "(i mod ?spp) * sz \<le> (?spp - 1) * sz" using m sz by (intro mult_right_mono) auto
    also have "\<dots> = ?spp * sz - sz" by (simp add: algebra_simps)
    finally have "(i mod ?spp) * sz \<le> ?spp * sz - sz" .
    moreover have "sz * ?spp \<le> 512" using sz(1) by (rule int_mult_div_le)
    ultimately show "(i mod ?spp) * sz < 512" using sz by (simp add: mult.commute)
  qed
  have off: "0 \<le> (i div ?spp) * 512 + (i mod ?spp) * sz"
    "(i div ?spp) * 512 + (i mod ?spp) * sz < SCH_SIZE_PER_SECTION cfg"
  proof -
    show "0 \<le> (i div ?spp) * 512 + (i mod ?spp) * sz" using page inpage by simp
    have "(i div ?spp) * 512 + (i mod ?spp) * sz < (i div ?spp + 1) * 512" using inpage by (simp add: algebra_simps)
    also have "\<dots> \<le> ?pis * 512" using page by (intro mult_right_mono) auto
    also have "\<dots> \<le> SCH_SIZE_PER_SECTION cfg" using int_mult_div_le[of 512 "SCH_SIZE_PER_SECTION cfg"] by simp
    finally show "(i div ?spp) * 512 + (i mod ?spp) * sz < SCH_SIZE_PER_SECTION cfg" .
  qed
  from run obtain base where
    base: "array_get tbl (p * SCH_SECTIONS_PER_PAYLOAD cfg) = Some base"
    and a: "a = u32 (base + (i div ?spp) * 512 + (i mod ?spp) * sz)"
    using sz spp
    by (auto simp: get_sample_address_def int_div_def c1 c2 c3 c4 Let_def tbl table_get_def
          split: Option.bind_splits if_splits)
  have b: "base = tbl ! nat (p * SCH_SECTIONS_PER_PAYLOAD cfg)" "base \<in> set tbl"
    using base by (auto simp: array_get_def split: if_splits)
  then have "0 \<le> base" "base + SCH_SIZE_PER_SECTION cfg \<le> 2 ^ 32" using nowrap by auto
  then have "u32 (base + (i div ?spp) * 512 + (i mod ?spp) * sz) = base + (i div ?spp) * 512 + (i mod ?spp) * sz"
    using off by (intro u32_id) auto
  then show ?thesis
    by (simp add: a sample_address_spec_def Let_def c4 pm b(1))
qed





















subsection \<open>The small configuration, continued\<close>

lemma demo_status_ok: "status_ok demo_cfg"
  by (simp add: status_ok_def)

lemma demo_fp4_not_due: "\<not> rebuild_due demo_cfg demo_fp4"
  by (simp add: demo_eval)

lemma demo_fp4_counter: "uint (fp_counter demo_cfg demo_fp4) = commands_per_section demo_cfg"
  by (simp add: demo_eval)

lemma demo_set_fifth:
  "storage_flight_plan_set_st demo_cfg (Some (demo_row 4500)) demo_fp4 = Some (SCH_ST_OK, demo_fp5)"
  unfolding set_st_not_due[OF demo_tlb_ok(5) demo_fp4_not_due demo_fields(4)] demo_fp5_def
  by (rule set_st_place_append[OF demo_tlb_ok(5), where base=4096]) (simp_all add: demo_eval)

lemma demo_delete_500:
  "storage_flight_plan_delete_row demo_cfg 500 demo_fp2 = Some (SCH_ST_OK, demo_fp2_deleted)"
proof -
  have f: "storage_flightplan_find_index_tlb demo_cfg 500 demo_fp2 = Some 0"
    by (simp add: demo_eval)
  have k: "(0::int) \<le> 0" "0 < st_flightplan_entries demo_fp2" by (simp_all add: demo_fields)
  show ?thesis
    using erase_index_tlb_ok[OF demo_tlb_ok(3) k]
    by (simp add: storage_flight_plan_delete_row_def f storage_flight_plan_delete_row_idx_def
          demo_fields demo_fp2_deleted_def)
qed

lemma demo_calls:
  "fp_calls_run demo_cfg [Set_st (demo_row 500), Set_st (demo_row 1500), Delete_row 500] demo_storage
     = Some demo_fp2_deleted"
  "no_compaction demo_cfg [Set_st (demo_row 500), Set_st (demo_row 1500), Delete_row 500] demo_storage"
  by (simp_all add: demo_set_steps demo_delete_500) (simp_all add: demo_eval)

lemma demo_counters:
  "fp_counter demo_cfg demo_storage = 0" "fp_counter demo_cfg demo_fp2_deleted = 2"
  by (simp_all add: fp_counter_def demo_fp2_deleted_def demo_tlbs)

lemma demo_set_fp:
  "\<exists>s'. dat_set_fp demo_cfg 3500 (Some [112, 105, 110, 103]) (Some [53]) 1 0 demo_fp3 = Some (SCH_ST_OK, s')"
proof -
  obtain v where v: "dat_get_system_var demo_cfg (dat_fpl_queue demo_cfg) demo_fp3 = Some v"
    using status_get_low(2)[OF demo_status_ok fram_low_eq_refl] by blast
  have set: "storage_flight_plan_set demo_cfg 3500 (Some [112, 105, 110, 103]) (Some [53]) 1 0
               (SCH_COMM_NODE demo_cfg) demo_fp3 = Some (SCH_ST_OK, demo_fp4)"
    using demo_set_steps(4) by (simp add: storage_flight_plan_set_def demo_fields demo_row_def)
  obtain m where "dat_set_system_var demo_cfg (dat_fpl_queue demo_cfg) (v + 1) demo_fp4
      = Some (SCH_ST_OK, demo_fp4\<lparr>fram := m\<rparr>)"
    using status_set_get[OF demo_status_ok] by blast
  then show ?thesis using v set by (simp add: dat_set_fp_def)
qed


lemma demo_del_fp:
  "\<exists>s'. dat_del_fp demo_cfg 1500 demo_fp3 = Some (SCH_ST_OK, s')"
  "\<exists>s'. dat_del_fp demo_cfg 999 demo_fp3 = Some (SCH_ST_ERROR, s')"
proof -
  obtain v where v: "dat_get_system_var demo_cfg (dat_fpl_queue demo_cfg) demo_fp3 = Some v"
    using status_get_low(2)[OF demo_status_ok fram_low_eq_refl] by blast
  have f: "storage_flightplan_find_index_tlb demo_cfg 1500 demo_fp3 = Some 1"
    "storage_flightplan_find_index_tlb demo_cfg 999 demo_fp3 = Some (- 1)"
    by (simp_all add: demo_eval)
  have k: "(0::int) \<le> 1" "1 < st_flightplan_entries demo_fp3" by (simp_all add: demo_fields)
  note e = erase_index_tlb_ok[OF demo_tlb_ok(4) k]
  have d: "\<exists>s1. storage_flight_plan_delete_row demo_cfg 1500 demo_fp3 = Some (SCH_ST_OK, s1)"
    by (simp add: storage_flight_plan_delete_row_def f storage_flight_plan_delete_row_idx_def
          demo_fields e)
  then obtain s1 where s1: "storage_flight_plan_delete_row demo_cfg 1500 demo_fp3 = Some (SCH_ST_OK, s1)" ..
  obtain m where "dat_set_system_var demo_cfg (dat_fpl_queue demo_cfg) (v - 1) s1
      = Some (SCH_ST_OK, s1\<lparr>fram := m\<rparr>)"
    using status_set_get[OF demo_status_ok] by blast
  then show "\<exists>s'. dat_del_fp demo_cfg 1500 demo_fp3 = Some (SCH_ST_OK, s')"
    using v s1 by (simp add: dat_del_fp_def)
  have "storage_flight_plan_delete_row demo_cfg 999 demo_fp3 = Some (SCH_ST_ERROR, demo_fp3)"
    by (simp add: storage_flight_plan_delete_row_def f storage_flight_plan_delete_row_idx_def
          demo_fields)
  then show "\<exists>s'. dat_del_fp demo_cfg 999 demo_fp3 = Some (SCH_ST_ERROR, s')"
    using v by (simp add: dat_del_fp_def)
qed

lemma demo_set_8:
  "storage_payload_set_data demo_cfg 0 8 (Some demo_sample) (Some demo_schema) demo_storage
     = Some (SCH_ST_OK, demo_storage\<lparr>flash := write_mem (flash demo_storage) 10240 demo_sample,
               flash_log := flash_log demo_storage @ [FlashWrite 10240 200]\<rparr>)"
  by (simp add: storage_payload_set_data_def demo_addr_8 demo_schema_def demo_sample_def
       write_data_with_check_def check_address_alignment_def u32_def storage_write_flash_def
       flash_size_def)

lemma demo_payload_1_limit:
  "storage_payload_set_data demo_cfg 1 0 (Some demo_sample) (Some demo_schema) demo_storage
     = Some (SCH_ST_OK, demo_storage\<lparr>flash := write_mem (flash demo_storage) 10240 demo_sample,
               flash_log := flash_log demo_storage @ [FlashWrite 10240 200]\<rparr>)"
  "storage_payload_set_data demo_cfg 1 1 (Some demo_sample) (Some demo_schema) demo_storage
     = Some (SCH_ST_ERROR, demo_storage)"
  by (simp_all add: payload_eval demo_schema_def demo_sample_def flash_size_def)



section \<open>The claims\<close>

subsection \<open>C1: the threshold of the rebuild\<close>

text \<open>
  \<^bold>\<open>C1\<close> asks for a rebuild whenever the counter is greater than or equal to
  \<^verbatim>\<open>commands_per_section\<close>. \<^verbatim>\<open>storage_flight_plan_set_st\<close> tests
  \<^verbatim>\<open>st_flightplan_tlb[SCH_FP_MAX_ENTRIES].addr > commands_per_section\<close>. In the small
  configuration a section holds four commands and the flight-plan sections start at 2048 and
  4096. With four commands set the counter equals \<^verbatim>\<open>commands_per_section\<close>; the fifth call
  returns \<^verbatim>\<open>SCH_ST_OK\<close> without a rebuild: the four slots keep their addresses, the flash is
  only written (no erase is logged), and the new command goes to address 4096, the first page
  after the section in use.
\<close>

theorem set_at_full_section_places_without_rebuild:
  "uint (fp_counter demo_cfg demo_fp4) = commands_per_section demo_cfg
   \<and> storage_flight_plan_set_st demo_cfg (Some (demo_row 4500)) demo_fp4 = Some (SCH_ST_OK, demo_fp5)
   \<and> flash_log demo_fp5 = flash_log demo_fp4 @ [FlashWrite 4096 512]
   \<and> st_flightplan_tlb demo_fp5 =
       [\<lparr>addr = 2048, unixtime = 500\<rparr>, \<lparr>addr = 2560, unixtime = 1500\<rparr>, \<lparr>addr = 3072, unixtime = 2500\<rparr>,
        \<lparr>addr = 3584, unixtime = 3500\<rparr>, \<lparr>addr = 4096, unixtime = 4500\<rparr>, \<lparr>addr = 5, unixtime = 0\<rparr>]
   \<and> st_flightplan_addr demo_fp4 = Some [2048, 4096]
   \<and> SCH_SIZE_PER_SECTION demo_cfg = 2048"
  using demo_fp4_counter demo_set_fifth
  by (simp add: demo_fp5_def fp_appended_def demo_tlbs demo_fields fp_counter_def demo_row_def)

subsection \<open>C2: the three copies of a status variable\<close>

text \<open>
  \<^bold>\<open>C2\<close> (triple-write round trip). With the three copies enabled, the two layout constants
  equal (both are the number of status variables) and the three copies inside the FRAM:
  for every index \<open>i\<close> below the number of variables and every value \<open>v\<close>,
  \<^verbatim>\<open>dat_set_status_var(i, v)\<close> returns \<^verbatim>\<open>SCH_ST_OK\<close> and \<^verbatim>\<open>dat_get_status_var(i)\<close> then returns
  \<open>v\<close>; it still returns \<open>v\<close> after any one of the three physical copies of slot \<open>i\<close> has been
  overwritten with any value \<open>w\<close>; and after two copies have been overwritten (with \<open>w1\<close> and \<open>w2\<close>)
  the call still returns normally, with one of the stored values.
\<close>

theorem triple_write_round_trip:
  assumes triple: "SCH_STORAGE_TRIPLE_WR cfg"
    and same: "dat_status_last_address cfg = dat_status_last_var cfg"
    and i: "0 \<le> i" "i < dat_status_last_var cfg"
    and room: "3 * dat_status_last_var cfg * 4 \<le> ST_FRAM_SIZE"
  shows "\<exists>s1. dat_set_status_var cfg i v s = Some (SCH_ST_OK, s1)
           \<and> dat_get_status_var cfg i s1 = Some v
           \<and> (\<forall>k\<in>{0, 1, 2}. \<forall>w. \<exists>s2.
                 dat_set_system_var_single (i + dat_status_last_var cfg * k) w s1 = Some (SCH_ST_OK, s2)
                 \<and> dat_get_status_var cfg i s2 = Some v)
           \<and> (\<forall>j\<in>{0, 1, 2}. \<forall>k\<in>{0, 1, 2}. \<forall>w1 w2. \<exists>s2 s3 r.
                 dat_set_system_var_single (i + dat_status_last_var cfg * j) w1 s1 = Some (SCH_ST_OK, s2)
                 \<and> dat_set_system_var_single (i + dat_status_last_var cfg * k) w2 s2 = Some (SCH_ST_OK, s3)
                 \<and> dat_get_status_var cfg i s3 = Some r \<and> r \<in> {v, w1, w2})"
proof -
  let ?N = "dat_status_last_var cfg"
  have N: "0 \<le> ?N" "(i + ?N * 2) * 4 + 4 \<le> ST_FRAM_SIZE" and Npos: "0 < ?N"
    using i room by auto
  have N': "0 \<le> dat_status_last_address cfg"
    "(i + dat_status_last_address cfg * 2) * 4 + 4 \<le> ST_FRAM_SIZE"
    using N same by auto
  note get = dat_get_status_var_triple[OF triple i(1) N]
  define m1 where "m1 = write_mem (write_mem (write_mem (fram s) (i * 4) (le32 v))
        ((i + ?N) * 4) (le32 v)) ((i + ?N * 2) * 4) (le32 v)"
  define s1 where "s1 = s\<lparr>fram := m1\<rparr>"
  have m1: "slot m1 (i + ?N * c) = v" if "c \<in> {0, 1, 2}" for c
    unfolding m1_def using Npos that by (rule slots_after_set)
  have set: "dat_set_status_var cfg i v s = Some (SCH_ST_OK, s1)"
    using dat_set_status_var_triple[OF triple i(1) N'] by (simp add: s1_def m1_def same)
  have a1: "slot m1 i = v" "slot m1 (i + ?N) = v" "slot m1 (i + ?N * 2) = v"
    using m1[of 0] m1[of 1] m1[of 2] by simp_all
  have get1: "dat_get_status_var cfg i s1 = Some v"
    unfolding get s1_def by (simp add: a1)
  have single: "dat_set_system_var_single (i + ?N * k) w t =
      Some (SCH_ST_OK, t\<lparr>fram := write_mem (fram t) ((i + ?N * k) * 4) (le32 w)\<rparr>)"
    if "k \<in> {0, 1, 2}" for k w t
  proof -
    have "0 \<le> i + ?N * k" "(i + ?N * k) * 4 + 4 \<le> ST_FRAM_SIZE"
      using that N i by auto
    then show ?thesis
      unfolding dat_set_system_var_single_def by (rule status_set_at)
  qed
  have one: "\<exists>s2. dat_set_system_var_single (i + ?N * k) w s1 = Some (SCH_ST_OK, s2)
                 \<and> dat_get_status_var cfg i s2 = Some v" if k: "k \<in> {0, 1, 2}" for k w
  proof -
    define m2 where "m2 = write_mem m1 ((i + ?N * k) * 4) (le32 w)"
    have m2: "slot m2 (i + ?N * c) = (if k = c then w else v)" if "c \<in> {0, 1, 2}" for c
      unfolding m2_def using slot_write_copy[OF Npos that k] m1[OF that] by auto
    have a: "slot m2 i = (if k = 0 then w else v)" "slot m2 (i + ?N) = (if k = 1 then w else v)"
      "slot m2 (i + ?N * 2) = (if k = 2 then w else v)"
      using m2[of 0] m2[of 1] m2[of 2] by simp_all
    have "dat_get_status_var cfg i (s1\<lparr>fram := m2\<rparr>) = Some v"
      using k unfolding get by (auto simp: a)
    then show ?thesis using single[OF k] by (simp add: m2_def s1_def)
  qed
  have two: "\<exists>s2 s3 r.
                 dat_set_system_var_single (i + ?N * j) w1 s1 = Some (SCH_ST_OK, s2)
                 \<and> dat_set_system_var_single (i + ?N * k) w2 s2 = Some (SCH_ST_OK, s3)
                 \<and> dat_get_status_var cfg i s3 = Some r \<and> r \<in> {v, w1, w2}"
    if jk: "j \<in> {0, 1, 2}" "k \<in> {0, 1, 2}" for j k w1 w2
  proof -
    define m3 where "m3 = write_mem (write_mem m1 ((i + ?N * j) * 4) (le32 w1))
                            ((i + ?N * k) * 4) (le32 w2)"
    have m3: "slot m3 (i + ?N * c) \<in> {v, w1, w2}" if "c \<in> {0, 1, 2}" for c
      unfolding m3_def
      using slot_write_copy[OF Npos that jk(2)] slot_write_copy[OF Npos that jk(1)] m1[OF that]
      by simp
    have a: "slot m3 i \<in> {v, w1, w2}" "slot m3 (i + ?N) \<in> {v, w1, w2}"
      "slot m3 (i + ?N * 2) \<in> {v, w1, w2}"
      using m3[of 0] m3[of 1] m3[of 2] by simp_all
    have "\<exists>r. dat_get_status_var cfg i (s1\<lparr>fram := m3\<rparr>) = Some r \<and> r \<in> {v, w1, w2}"
      unfolding get using a by simp
    then show ?thesis using single[OF jk(1)] single[OF jk(2)] by (simp add: m3_def s1_def)
  qed
  show ?thesis
    by (intro exI[of _ s1] conjI ballI allI set get1 one two)
qed

text \<open>The round trip in the small configuration, from the state at boot: the value \<open>0xA5\<close> at
  index 7, then the second copy overwritten with \<open>0x5A\<close>, or the first and the third copies
  overwritten with 1 and 2.\<close>

theorem triple_write_round_trip_witness:
  "SCH_STORAGE_TRIPLE_WR demo_cfg
   \<and> dat_status_last_address demo_cfg = dat_status_last_var demo_cfg
   \<and> (0::int) \<le> 7 \<and> 7 < dat_status_last_var demo_cfg
   \<and> 3 * dat_status_last_var demo_cfg * 4 \<le> ST_FRAM_SIZE
   \<and> (\<exists>s1. dat_set_status_var demo_cfg 7 0xA5 (boot_storage demo_cfg) = Some (SCH_ST_OK, s1)
           \<and> dat_get_status_var demo_cfg 7 s1 = Some 0xA5
           \<and> (\<exists>s2. dat_set_system_var_single (7 + dat_status_last_var demo_cfg * 1) 0x5A s1 = Some (SCH_ST_OK, s2)
                 \<and> dat_get_status_var demo_cfg 7 s2 = Some 0xA5)
           \<and> (\<exists>s2 s3 r.
                 dat_set_system_var_single (7 + dat_status_last_var demo_cfg * 0) 1 s1 = Some (SCH_ST_OK, s2)
                 \<and> dat_set_system_var_single (7 + dat_status_last_var demo_cfg * 2) 2 s2 = Some (SCH_ST_OK, s3)
                 \<and> dat_get_status_var demo_cfg 7 s3 = Some r \<and> r \<in> {0xA5, 1, 2}))"
proof -
  have h: "SCH_STORAGE_TRIPLE_WR demo_cfg"
    "dat_status_last_address demo_cfg = dat_status_last_var demo_cfg"
    "(0::int) \<le> 7" "7 < dat_status_last_var demo_cfg"
    "3 * dat_status_last_var demo_cfg * 4 \<le> ST_FRAM_SIZE"
    by (simp_all add: demo_cfg_def)
  from triple_write_round_trip[OF h, of "0xA5" "boot_storage demo_cfg"] obtain s1 where
    a: "dat_set_status_var demo_cfg 7 0xA5 (boot_storage demo_cfg) = Some (SCH_ST_OK, s1)"
      "dat_get_status_var demo_cfg 7 s1 = Some 0xA5"
    and one: "\<forall>k\<in>{0, 1, 2}. \<forall>w. \<exists>s2.
                 dat_set_system_var_single (7 + dat_status_last_var demo_cfg * k) w s1 = Some (SCH_ST_OK, s2)
                 \<and> dat_get_status_var demo_cfg 7 s2 = Some 0xA5"
    and two: "\<forall>j\<in>{0, 1, 2}. \<forall>k\<in>{0, 1, 2}. \<forall>w1 w2. \<exists>s2 s3 r.
                 dat_set_system_var_single (7 + dat_status_last_var demo_cfg * j) w1 s1 = Some (SCH_ST_OK, s2)
                 \<and> dat_set_system_var_single (7 + dat_status_last_var demo_cfg * k) w2 s2 = Some (SCH_ST_OK, s3)
                 \<and> dat_get_status_var demo_cfg 7 s3 = Some r \<and> r \<in> {0xA5, w1, w2}"
    by (elim exE conjE)
  have k: "(0::int) \<in> {0, 1, 2}" "(1::int) \<in> {0, 1, 2}" "(2::int) \<in> {0, 1, 2}" by simp_all
  note b = one[rule_format, OF k(2), of "0x5A"]
  note c = two[rule_format, OF k(1) k(3), of 1 2]
  show ?thesis
    by (intro conjI h exI[of _ s1] a b c)
qed

subsection \<open>C3: records of 200 bytes and the page boundary\<close>

text \<open>
  \<^bold>\<open>C3\<close> says that \<^verbatim>\<open>storage_payload_set_data\<close> fails for sample index 2. In the small
  configuration, with a record of 200 bytes, the call for index 2 of payload 0 returns
  \<^verbatim>\<open>SCH_ST_OK\<close>.
\<close>

theorem payload_index_2_succeeds:
  "map_option fst (storage_payload_set_data demo_cfg 0 2 (Some demo_sample) (Some demo_schema) demo_storage) = Some SCH_ST_OK"
  by (simp add: storage_payload_set_data_def demo_addr_2 demo_schema_def demo_sample_def
       write_data_with_check_def check_address_alignment_def u32_def storage_write_flash_def)

text \<open>
  \<^bold>\<open>C3\<close>, amended. Pages have 512 bytes and the schema has record size 200, so two samples go
  to a page: the samples 0, 1, 2 and 3 of a payload whose first section starts at \<open>base\<close> have
  the addresses \<open>base\<close>, \<open>base + 200\<close>, \<open>base + 512\<close> and \<open>base + 712\<close>, that is
  \<open>base + (i div 2) * 512 + (i mod 2) * 200\<close>. Let the storage be open, the first section of
  payload \<open>p\<close> be in the table of sections (its index \<open>p * SCH_SECTIONS_PER_PAYLOAD\<close> is inside
  the table and at most \<open>st_payloads_entries * SCH_SECTIONS_PER_PAYLOAD\<close>), a section have at
  least two pages, \<open>base\<close> be a multiple of the page size with the two pages inside the flash,
  and the buffer hold a record. Then for each index \<open>i\<close> of 0, 1, 2, 3 whose address does not
  exceed the limit that \<^verbatim>\<open>_get_sample_address\<close> tests,
  \<^verbatim>\<open>SCH_FLASH_INIT_MEMORY + st_flightplan_base_addr + st_payloads_entries *
  SCH_SECTIONS_PER_PAYLOAD * SCH_SIZE_PER_SECTION\<close>, \<^verbatim>\<open>storage_payload_set_data\<close> returns
  \<^verbatim>\<open>SCH_ST_OK\<close> and writes the 200 bytes at that address: index 2 is written at the start of
  the next page, no record crosses a page boundary. Nothing is said about an index whose
  address exceeds the limit.
\<close>

theorem payload_page_boundary_samples:
  assumes "storage_is_open s"
    and "table_get (st_payload_addr s) (p * SCH_SECTIONS_PER_PAYLOAD cfg) = Some base"
    and "2 \<le> SCH_SIZE_PER_SECTION cfg div ST_PAGE_SIZE"
    and "0 \<le> SCH_SECTIONS_PER_PAYLOAD cfg"
    and "p * SCH_SECTIONS_PER_PAYLOAD cfg \<le> st_payloads_entries s * SCH_SECTIONS_PER_PAYLOAD cfg"
    and "base mod ST_PAGE_SIZE = 0" "0 \<le> base"
    and "base + 1024 \<le> flash_size cfg" "base + 1024 \<le> 2 ^ 32"
    and "dm_size sch = 200" and "200 \<le> length d"
    and "i \<in> {0, 1, 2, 3}"
    and "base + (i div 2) * ST_PAGE_SIZE + (i mod 2) * 200
           \<le> u32 (SCH_FLASH_INIT_MEMORY cfg + st_flightplan_base_addr s
                 + st_payloads_entries s * SCH_SECTIONS_PER_PAYLOAD cfg * SCH_SIZE_PER_SECTION cfg)"
  shows "storage_payload_set_data cfg p i (Some d) (Some sch) s =
           Some (SCH_ST_OK,
             s\<lparr>flash := write_mem (flash s) (base + (i div 2) * ST_PAGE_SIZE + (i mod 2) * 200) (take 200 d),
               flash_log := flash_log s
                  @ [FlashWrite (base + (i div 2) * ST_PAGE_SIZE + (i mod 2) * 200) 200]\<rparr>)"
proof -
  from assms(6,7) obtain b where b: "base = 512 * b" "0 \<le> b"
    by (metis mod_eq_0_iff_dvd dvd_def zero_le_mult_iff zero_less_numeral not_numeral_le_zero pos_imp_zdiv_nonneg_iff nonzero_mult_div_cancel_left)
  have "i = 2 * (i div 2) + i mod 2" "i div 2 \<in> {0, 1}" "i mod 2 \<in> {0, 1}"
    using assms(12) by auto
  from payload_set_at[OF assms(1-5) b assms(8-11) this assms(13)]
  show ?thesis .
qed

text \<open>The four samples of payload 0 in the small configuration: its first section starts at
  6144 and the limit is 10240.\<close>

theorem payload_page_boundary_samples_witness:
  "storage_is_open demo_storage
   \<and> table_get (st_payload_addr demo_storage) (0 * SCH_SECTIONS_PER_PAYLOAD demo_cfg) = Some 6144
   \<and> dm_size demo_schema = 200 \<and> 200 \<le> length demo_sample
   \<and> u32 (SCH_FLASH_INIT_MEMORY demo_cfg + st_flightplan_base_addr demo_storage
          + st_payloads_entries demo_storage * SCH_SECTIONS_PER_PAYLOAD demo_cfg * SCH_SIZE_PER_SECTION demo_cfg)
       = 10240
   \<and> storage_payload_set_data demo_cfg 0 0 (Some demo_sample) (Some demo_schema) demo_storage =
         Some (SCH_ST_OK,
           demo_storage\<lparr>flash := write_mem (flash demo_storage) 6144 (take 200 demo_sample),
             flash_log := flash_log demo_storage @ [FlashWrite 6144 200]\<rparr>)
   \<and> storage_payload_set_data demo_cfg 0 1 (Some demo_sample) (Some demo_schema) demo_storage =
         Some (SCH_ST_OK,
           demo_storage\<lparr>flash := write_mem (flash demo_storage) 6344 (take 200 demo_sample),
             flash_log := flash_log demo_storage @ [FlashWrite 6344 200]\<rparr>)
   \<and> storage_payload_set_data demo_cfg 0 2 (Some demo_sample) (Some demo_schema) demo_storage =
         Some (SCH_ST_OK,
           demo_storage\<lparr>flash := write_mem (flash demo_storage) 6656 (take 200 demo_sample),
             flash_log := flash_log demo_storage @ [FlashWrite 6656 200]\<rparr>)
   \<and> storage_payload_set_data demo_cfg 0 3 (Some demo_sample) (Some demo_schema) demo_storage =
         Some (SCH_ST_OK,
           demo_storage\<lparr>flash := write_mem (flash demo_storage) 6856 (take 200 demo_sample),
             flash_log := flash_log demo_storage @ [FlashWrite 6856 200]\<rparr>)"
proof -
  have h: "storage_is_open demo_storage"
    "table_get (st_payload_addr demo_storage) (0 * SCH_SECTIONS_PER_PAYLOAD demo_cfg) = Some 6144"
    "2 \<le> SCH_SIZE_PER_SECTION demo_cfg div ST_PAGE_SIZE"
    "0 \<le> SCH_SECTIONS_PER_PAYLOAD demo_cfg"
    "0 * SCH_SECTIONS_PER_PAYLOAD demo_cfg
       \<le> st_payloads_entries demo_storage * SCH_SECTIONS_PER_PAYLOAD demo_cfg"
    "(6144::int) mod ST_PAGE_SIZE = 0" "(0::int) \<le> 6144"
    "6144 + 1024 \<le> flash_size demo_cfg" "(6144::int) + 1024 \<le> 2 ^ 32"
    "dm_size demo_schema = 200" "200 \<le> length demo_sample"
    by (simp_all add: demo_storage_def demo_cfg_def table_get_def array_get_def flash_size_def
          demo_schema_def demo_sample_def)
  have l: "u32 (SCH_FLASH_INIT_MEMORY demo_cfg + st_flightplan_base_addr demo_storage
          + st_payloads_entries demo_storage * SCH_SECTIONS_PER_PAYLOAD demo_cfg * SCH_SIZE_PER_SECTION demo_cfg)
       = 10240"
    by (simp add: demo_storage_def demo_cfg_def u32_def)
  note r = payload_page_boundary_samples[OF h]
  have r0: "storage_payload_set_data demo_cfg 0 0 (Some demo_sample) (Some demo_schema) demo_storage =
         Some (SCH_ST_OK,
           demo_storage\<lparr>flash := write_mem (flash demo_storage) 6144 (take 200 demo_sample),
             flash_log := flash_log demo_storage @ [FlashWrite 6144 200]\<rparr>)"
    using r[of 0] unfolding l by simp
  have r1: "storage_payload_set_data demo_cfg 0 1 (Some demo_sample) (Some demo_schema) demo_storage =
         Some (SCH_ST_OK,
           demo_storage\<lparr>flash := write_mem (flash demo_storage) 6344 (take 200 demo_sample),
             flash_log := flash_log demo_storage @ [FlashWrite 6344 200]\<rparr>)"
    using r[of 1] unfolding l by simp
  have r2: "storage_payload_set_data demo_cfg 0 2 (Some demo_sample) (Some demo_schema) demo_storage =
         Some (SCH_ST_OK,
           demo_storage\<lparr>flash := write_mem (flash demo_storage) 6656 (take 200 demo_sample),
             flash_log := flash_log demo_storage @ [FlashWrite 6656 200]\<rparr>)"
    using r[of 2] unfolding l by simp
  have r3: "storage_payload_set_data demo_cfg 0 3 (Some demo_sample) (Some demo_schema) demo_storage =
         Some (SCH_ST_OK,
           demo_storage\<lparr>flash := write_mem (flash demo_storage) 6856 (take 200 demo_sample),
             flash_log := flash_log demo_storage @ [FlashWrite 6856 200]\<rparr>)"
    using r[of 3] unfolding l by simp
  show ?thesis
    by (intro conjI h(1,2,10,11) l r0 r1 r2 r3)
qed

subsection \<open>C4: what a purge deletes\<close>




subsection \<open>C5: the address of a payload sample\<close>

text \<open>
  \<^bold>\<open>C5\<close> gives the address of sample \<open>i\<close> of payload \<open>p\<close> with the page index taken modulo the
  number of pages of a section. \<^verbatim>\<open>_get_sample_address\<close> adds
  \<^verbatim>\<open>sample_page * ST_PAGE_SIZE\<close> with \<^verbatim>\<open>sample_page = i / samples_per_page\<close>, not reduced. In
  the small configuration (sections of four pages, two sections per payload, records of 200
  bytes, so eight samples per section) sample 8 of payload 0 lies in the second section of the
  payload, inside its reserved range. The specification places it at 8192, the start of that
  section; the code returns 10240, which is the address of sample 0 of payload 1
  (\<^verbatim>\<open>storage_payload_set_data\<close> writes the record there, lemma \<open>demo_set_8\<close>).
\<close>

theorem sample_address_page_not_reduced:
  "st_payload_addr demo_storage = Some [6144, 8192, 10240, 12288]
   \<and> sample_address_spec demo_cfg [6144, 8192, 10240, 12288] 0 8 200 = 8192
   \<and> get_sample_address demo_cfg 0 8 200 demo_storage = Some (SCH_ST_OK, Some 10240)
   \<and> get_sample_address demo_cfg 1 0 200 demo_storage = Some (SCH_ST_OK, Some 10240)"
  using demo_spec_8 demo_addr_8 demo_addr_p1 by (simp add: demo_storage_def)

subsection \<open>C6: the counter of the flight plan\<close>

text \<open>
  \<^bold>\<open>C6\<close>. Let \<open>entries\<close> be the value of the status variable \<^verbatim>\<open>dat_fpl_queue\<close> before the call.
  Whenever \<^verbatim>\<open>dat_set_fp\<close> returns, it returns the code of \<^verbatim>\<open>storage_flight_plan_set\<close> and the
  variable is \<open>entries + 1\<close> if that code is \<^verbatim>\<open>SCH_ST_OK\<close> and \<open>entries\<close> otherwise.
  \<^verbatim>\<open>dat_get_fp\<close> returns \<^verbatim>\<open>SCH_ST_OK\<close> exactly when both \<^verbatim>\<open>storage_flight_plan_get_args\<close>
  and \<^verbatim>\<open>storage_flight_plan_delete_row\<close> do, \<^verbatim>\<open>dat_del_fp\<close> returns the code of
  \<^verbatim>\<open>storage_flight_plan_delete_row\<close>; after either the variable is \<open>entries - 1\<close> on
  \<^verbatim>\<open>SCH_ST_OK\<close> and \<open>entries\<close> otherwise. \<^verbatim>\<open>dat_reset_fp\<close> returns the code of
  \<^verbatim>\<open>storage_flight_plan_reset\<close>; the variable is 0 on \<^verbatim>\<open>SCH_ST_OK\<close> and \<open>entries\<close>
  otherwise. Each of the four functions returns whenever the storage functions it calls do.
\<close>

theorem fpl_queue_advanced_only_on_success:
  assumes "tlb_ok cfg s" "status_ok cfg"
  shows "\<exists>entries. dat_get_system_var cfg (dat_fpl_queue cfg) s = Some entries
     \<and> (\<forall>t c a e p rc s'. dat_set_fp cfg t c a e p s = Some (rc, s') \<longrightarrow>
           map_option fst (storage_flight_plan_set cfg t c a e p (SCH_COMM_NODE cfg) s) = Some rc
         \<and> dat_get_system_var cfg (dat_fpl_queue cfg) s'
             = Some (if rc = SCH_ST_OK then entries + 1 else entries))
     \<and> (\<forall>t out_ok rc row s'. dat_get_fp cfg t out_ok s = Some (rc, row, s') \<longrightarrow>
           (rc = SCH_ST_OK \<longleftrightarrow>
              (\<exists>r. storage_flight_plan_get_args cfg t out_ok s = Some (SCH_ST_OK, r))
              \<and> (\<exists>s1. storage_flight_plan_delete_row cfg t s = Some (SCH_ST_OK, s1)))
         \<and> dat_get_system_var cfg (dat_fpl_queue cfg) s'
             = Some (if rc = SCH_ST_OK then entries - 1 else entries))
     \<and> (\<forall>t rc s'. dat_del_fp cfg t s = Some (rc, s') \<longrightarrow>
           map_option fst (storage_flight_plan_delete_row cfg t s) = Some rc
         \<and> dat_get_system_var cfg (dat_fpl_queue cfg) s'
             = Some (if rc = SCH_ST_OK then entries - 1 else entries))
     \<and> (\<forall>rc s'. dat_reset_fp cfg s = Some (rc, s') \<longrightarrow>
           map_option fst (storage_flight_plan_reset cfg s) = Some rc
         \<and> dat_get_system_var cfg (dat_fpl_queue cfg) s'
             = Some (if rc = SCH_ST_OK then 0 else entries))
     \<and> (\<forall>t c a e p. storage_flight_plan_set cfg t c a e p (SCH_COMM_NODE cfg) s \<noteq> None
           \<longrightarrow> dat_set_fp cfg t c a e p s \<noteq> None)
     \<and> (\<forall>t out_ok. storage_flight_plan_get_args cfg t out_ok s \<noteq> None
              \<and> storage_flight_plan_delete_row cfg t s \<noteq> None
           \<longrightarrow> dat_get_fp cfg t out_ok s \<noteq> None)
     \<and> (\<forall>t. storage_flight_plan_delete_row cfg t s \<noteq> None \<longrightarrow> dat_del_fp cfg t s \<noteq> None)
     \<and> (storage_flight_plan_reset cfg s \<noteq> None \<longrightarrow> dat_reset_fp cfg s \<noteq> None)"
proof -
  from status_get_low(2)[OF assms(2) fram_low_eq_refl, of s] obtain entries where
    e: "dat_get_system_var cfg (dat_fpl_queue cfg) s = Some entries" by blast
  show ?thesis
    apply (rule exI[of _ entries])
    apply (intro conjI allI impI e)
    apply (erule dat_set_fp_counter[OF assms e])
    apply (erule dat_set_fp_counter[OF assms e])
    apply (erule dat_get_fp_counter[OF assms e])
    apply (erule dat_get_fp_counter[OF assms e])
    apply (erule dat_del_fp_counter[OF assms e])
    apply (erule dat_del_fp_counter[OF assms e])
    apply (erule dat_reset_fp_counter[OF assms e])
    apply (erule dat_reset_fp_counter[OF assms e])
    apply (erule dat_fp_defined(1)[OF assms(2)])
    apply (erule conjE, erule (1) dat_fp_defined(2)[OF assms(2)])
    apply (erule dat_fp_defined(3)[OF assms(2)])
    apply (erule dat_fp_defined(4)[OF assms(2)])
    done
qed

text \<open>After three commands: a fourth is set, the one for the time 1500 is deleted, and the
  deletion of a time that is not in the flight plan fails.\<close>

theorem fpl_queue_advanced_only_on_success_witness:
  "tlb_ok demo_cfg demo_fp3 \<and> status_ok demo_cfg
   \<and> (\<exists>entries. dat_get_system_var demo_cfg (dat_fpl_queue demo_cfg) demo_fp3 = Some entries
        \<and> (\<exists>s'. dat_set_fp demo_cfg 3500 (Some [112, 105, 110, 103]) (Some [53]) 1 0 demo_fp3
                    = Some (SCH_ST_OK, s')
               \<and> dat_get_system_var demo_cfg (dat_fpl_queue demo_cfg) s' = Some (entries + 1))
        \<and> (\<exists>s'. dat_del_fp demo_cfg 1500 demo_fp3 = Some (SCH_ST_OK, s')
               \<and> dat_get_system_var demo_cfg (dat_fpl_queue demo_cfg) s' = Some (entries - 1))
        \<and> (\<exists>s'. dat_del_fp demo_cfg 999 demo_fp3 = Some (SCH_ST_ERROR, s')
               \<and> dat_get_system_var demo_cfg (dat_fpl_queue demo_cfg) s' = Some entries))"
proof -
  have h: "tlb_ok demo_cfg demo_fp3" "status_ok demo_cfg"
    by (simp_all add: demo_tlb_ok demo_status_ok)
  from fpl_queue_advanced_only_on_success[OF h] obtain entries where
    e: "dat_get_system_var demo_cfg (dat_fpl_queue demo_cfg) demo_fp3 = Some entries"
    and s: "\<forall>t c a e p rc s'. dat_set_fp demo_cfg t c a e p demo_fp3 = Some (rc, s') \<longrightarrow>
           map_option fst (storage_flight_plan_set demo_cfg t c a e p (SCH_COMM_NODE demo_cfg) demo_fp3) = Some rc
         \<and> dat_get_system_var demo_cfg (dat_fpl_queue demo_cfg) s'
             = Some (if rc = SCH_ST_OK then entries + 1 else entries)"
    and d: "\<forall>t rc s'. dat_del_fp demo_cfg t demo_fp3 = Some (rc, s') \<longrightarrow>
           map_option fst (storage_flight_plan_delete_row demo_cfg t demo_fp3) = Some rc
         \<and> dat_get_system_var demo_cfg (dat_fpl_queue demo_cfg) s'
             = Some (if rc = SCH_ST_OK then entries - 1 else entries)"
    by (elim exE conjE)
  from demo_set_fp s have 1: "\<exists>s'. dat_set_fp demo_cfg 3500 (Some [112, 105, 110, 103]) (Some [53]) 1 0 demo_fp3
                    = Some (SCH_ST_OK, s')
               \<and> dat_get_system_var demo_cfg (dat_fpl_queue demo_cfg) s' = Some (entries + 1)"
    by fastforce
  from demo_del_fp(1) d have 2: "\<exists>s'. dat_del_fp demo_cfg 1500 demo_fp3 = Some (SCH_ST_OK, s')
               \<and> dat_get_system_var demo_cfg (dat_fpl_queue demo_cfg) s' = Some (entries - 1)"
    by fastforce
  from demo_del_fp(2) d have 3: "\<exists>s'. dat_del_fp demo_cfg 999 demo_fp3 = Some (SCH_ST_ERROR, s')
               \<and> dat_get_system_var demo_cfg (dat_fpl_queue demo_cfg) s' = Some entries"
    by fastforce
  show ?thesis
    by (intro conjI h exI[of _ entries] e 1 2 3)
qed

subsection \<open>C7: deletion only tombstones the TLB\<close>

text \<open>
  \<^bold>\<open>C7\<close>. For every valid index \<open>k\<close>, \<^verbatim>\<open>storage_flight_plan_delete_row_idx\<close> returns
  \<^verbatim>\<open>SCH_ST_OK\<close>, and so does \<^verbatim>\<open>storage_flight_plan_delete_row\<close> for a time found at slot \<open>k\<close>,
  with the same state. In that state slot \<open>k\<close> of the TLB is \<open>{-1, -1}\<close>, in memory and in the
  image of the TLB in the FRAM; nothing but this slot and its image has changed: the flash and
  the log of flash writes and erases are the same, and so are all other slots and the counter
  in the last slot.
\<close>

theorem flight_plan_delete_tombstones_only:
  assumes "tlb_ok cfg s" "0 \<le> k" "k < st_flightplan_entries s"
  shows "\<exists>s'. storage_flight_plan_delete_row_idx cfg k s = Some (SCH_ST_OK, s')
     \<and> (\<forall>t. storage_flightplan_find_index_tlb cfg t s = Some k
            \<longrightarrow> storage_flight_plan_delete_row cfg t s = Some (SCH_ST_OK, s'))
     \<and> s' = s\<lparr>st_flightplan_tlb := (st_flightplan_tlb s)[nat k := \<lparr>addr = ST_FP_NULL, unixtime = ST_FP_NULL\<rparr>],
               fram := write_mem (fram s) (tlb_addr_start cfg + k * 8)
                         (tlb_entry_bytes \<lparr>addr = ST_FP_NULL, unixtime = ST_FP_NULL\<rparr>)\<rparr>
     \<and> st_flightplan_tlb s' ! nat k = \<lparr>addr = ST_FP_NULL, unixtime = ST_FP_NULL\<rparr>
     \<and> tlb_entry_of_bytes (read_mem (fram s') (tlb_addr_start cfg + k * 8) 8)
         = \<lparr>addr = ST_FP_NULL, unixtime = ST_FP_NULL\<rparr>
     \<and> flash s' = flash s \<and> flash_log s' = flash_log s
     \<and> (\<forall>j. j \<noteq> nat k \<longrightarrow> st_flightplan_tlb s' ! j = st_flightplan_tlb s ! j)
     \<and> addr (st_flightplan_tlb s' ! SCH_FP_MAX_ENTRIES cfg)
         = addr (st_flightplan_tlb s ! SCH_FP_MAX_ENTRIES cfg)"
proof -
  define s' where "s' = s\<lparr>st_flightplan_tlb := (st_flightplan_tlb s)[nat k := \<lparr>addr = ST_FP_NULL, unixtime = ST_FP_NULL\<rparr>],
               fram := write_mem (fram s) (tlb_addr_start cfg + k * 8)
                         (tlb_entry_bytes \<lparr>addr = ST_FP_NULL, unixtime = ST_FP_NULL\<rparr>)\<rparr>"
  have k: "nat k < length (st_flightplan_tlb s)" "nat k \<noteq> SCH_FP_MAX_ENTRIES cfg"
    using assms by (auto simp: tlb_ok_def)
  have idx: "storage_flight_plan_delete_row_idx cfg k s = Some (SCH_ST_OK, s')"
    using assms erase_index_tlb_ok[OF assms] by (simp add: storage_flight_plan_delete_row_idx_def s'_def)
  have row: "storage_flight_plan_delete_row cfg t s = Some (SCH_ST_OK, s')"
    if "storage_flightplan_find_index_tlb cfg t s = Some k" for t
    using that assms(2) idx by (simp add: storage_flight_plan_delete_row_def)
  have slot: "st_flightplan_tlb s' ! nat k = \<lparr>addr = ST_FP_NULL, unixtime = ST_FP_NULL\<rparr>"
    using k by (simp add: s'_def)
  have persisted: "tlb_entry_of_bytes (read_mem (fram s') (tlb_addr_start cfg + k * 8) 8)
         = \<lparr>addr = ST_FP_NULL, unixtime = ST_FP_NULL\<rparr>"
    by (simp add: s'_def read_write_same)
  have others: "st_flightplan_tlb s' ! j = st_flightplan_tlb s ! j" if "j \<noteq> nat k" for j
    using that by (simp add: s'_def)
  show ?thesis
    apply (rule exI[of _ s'])
    apply (intro conjI allI impI idx row slot persisted others)
         apply (simp_all add: s'_def)
    using k(2) by simp
qed

text \<open>Deleting the command for the time 1500, at slot 1, after three commands have been set.\<close>

theorem flight_plan_delete_tombstones_only_witness:
  "tlb_ok demo_cfg demo_fp3 \<and> (0::int) \<le> 1 \<and> 1 < st_flightplan_entries demo_fp3
   \<and> storage_flightplan_find_index_tlb demo_cfg 1500 demo_fp3 = Some 1
   \<and> (\<exists>s'. storage_flight_plan_delete_row_idx demo_cfg 1 demo_fp3 = Some (SCH_ST_OK, s')
         \<and> storage_flight_plan_delete_row demo_cfg 1500 demo_fp3 = Some (SCH_ST_OK, s')
         \<and> st_flightplan_tlb s' =
             [\<lparr>addr = 2048, unixtime = 500\<rparr>, \<lparr>addr = ST_FP_NULL, unixtime = ST_FP_NULL\<rparr>,
              \<lparr>addr = 3072, unixtime = 2500\<rparr>, \<lparr>addr = ST_FP_NULL, unixtime = ST_FP_NULL\<rparr>,
              \<lparr>addr = ST_FP_NULL, unixtime = ST_FP_NULL\<rparr>, \<lparr>addr = 3, unixtime = 0\<rparr>]
         \<and> flash s' = flash demo_fp3 \<and> flash_log s' = flash_log demo_fp3)"
proof -
  have h: "tlb_ok demo_cfg demo_fp3" "(0::int) \<le> 1" "1 < st_flightplan_entries demo_fp3"
    by (simp_all add: demo_tlb_ok demo_fields)
  have f: "storage_flightplan_find_index_tlb demo_cfg 1500 demo_fp3 = Some 1"
    by (simp add: demo_eval)
  from flight_plan_delete_tombstones_only[OF h] obtain s' where
    r: "storage_flight_plan_delete_row_idx demo_cfg 1 demo_fp3 = Some (SCH_ST_OK, s')"
    and d: "\<forall>t. storage_flightplan_find_index_tlb demo_cfg t demo_fp3 = Some 1
            \<longrightarrow> storage_flight_plan_delete_row demo_cfg t demo_fp3 = Some (SCH_ST_OK, s')"
    and e: "s' = demo_fp3\<lparr>st_flightplan_tlb :=
                    (st_flightplan_tlb demo_fp3)[nat 1 := \<lparr>addr = ST_FP_NULL, unixtime = ST_FP_NULL\<rparr>],
               fram := write_mem (fram demo_fp3) (tlb_addr_start demo_cfg + 1 * 8)
                         (tlb_entry_bytes \<lparr>addr = ST_FP_NULL, unixtime = ST_FP_NULL\<rparr>)\<rparr>"
    and fl: "flash s' = flash demo_fp3" "flash_log s' = flash_log demo_fp3"
    by (elim exE conjE)
  have t: "st_flightplan_tlb s' =
             [\<lparr>addr = 2048, unixtime = 500\<rparr>, \<lparr>addr = ST_FP_NULL, unixtime = ST_FP_NULL\<rparr>,
              \<lparr>addr = 3072, unixtime = 2500\<rparr>, \<lparr>addr = ST_FP_NULL, unixtime = ST_FP_NULL\<rparr>,
              \<lparr>addr = ST_FP_NULL, unixtime = ST_FP_NULL\<rparr>, \<lparr>addr = 3, unixtime = 0\<rparr>]"
    unfolding e by (simp add: demo_tlbs)
  from d f have "storage_flight_plan_delete_row demo_cfg 1500 demo_fp3 = Some (SCH_ST_OK, s')"
    by simp
  with r t fl h f show ?thesis by (intro conjI exI[of _ s']) assumption+
qed

subsection \<open>C8: the counter between compactions\<close>

text \<open>
  \<^bold>\<open>C8\<close>. From a state with a well-formed TLB, along every sequence of calls of
  \<^verbatim>\<open>storage_flight_plan_set_st\<close>, the three \<^verbatim>\<open>get\<close> functions and the two \<^verbatim>\<open>delete\<close> functions
  in which no insertion finds the test for a rebuild true (reset is not among the calls), the
  counter in the last slot of the TLB does not decrease; an insertion that returns
  \<^verbatim>\<open>SCH_ST_OK\<close> without a rebuild makes it exactly one more; \<^verbatim>\<open>flight_plan_erase_index_tlb\<close>
  leaves it as it is.
\<close>

theorem metadata_counter_monotone:
  assumes "tlb_ok cfg s" "section_ok cfg"
  shows "(\<forall>cs s'. no_compaction cfg cs s \<and> fp_calls_run cfg cs s = Some s'
            \<longrightarrow> fp_counter cfg s \<le> fp_counter cfg s')
       \<and> (\<forall>r s'. \<not> rebuild_due cfg s \<and> storage_flight_plan_set_st cfg (Some r) s = Some (SCH_ST_OK, s')
            \<longrightarrow> fp_counter cfg s' = fp_counter cfg s + 1 \<and> fp_counter cfg s < fp_counter cfg s')
       \<and> (\<forall>k rc s'. flight_plan_erase_index_tlb cfg k s = Some (rc, s')
            \<longrightarrow> fp_counter cfg s' = fp_counter cfg s)"
  using fp_calls_run_monotone[OF assms] set_st_no_rebuild_props(2)[OF assms]
    erase_index_tlb_props(2)[OF assms(1)]
  by blast

text \<open>Two insertions and a deletion from the empty flight plan: the counter goes from 0 to 2.\<close>

theorem metadata_counter_monotone_witness:
  "tlb_ok demo_cfg demo_storage \<and> section_ok demo_cfg
   \<and> no_compaction demo_cfg [Set_st (demo_row 500), Set_st (demo_row 1500), Delete_row 500] demo_storage
   \<and> fp_calls_run demo_cfg [Set_st (demo_row 500), Set_st (demo_row 1500), Delete_row 500] demo_storage
       = Some demo_fp2_deleted
   \<and> fp_counter demo_cfg demo_storage \<le> fp_counter demo_cfg demo_fp2_deleted
   \<and> fp_counter demo_cfg demo_storage = 0 \<and> fp_counter demo_cfg demo_fp2_deleted = 2
   \<and> \<not> rebuild_due demo_cfg demo_storage
   \<and> storage_flight_plan_set_st demo_cfg (Some (demo_row 500)) demo_storage = Some (SCH_ST_OK, demo_fp1)
   \<and> fp_counter demo_cfg demo_fp1 = fp_counter demo_cfg demo_storage + 1
   \<and> (\<exists>s'. flight_plan_erase_index_tlb demo_cfg 0 demo_storage = Some (SCH_ST_OK, s')
          \<and> fp_counter demo_cfg s' = fp_counter demo_cfg demo_storage)"
proof -
  have h: "tlb_ok demo_cfg demo_storage" "section_ok demo_cfg"
    by (simp_all add: demo_tlb_ok demo_section_ok)
  note m = metadata_counter_monotone[OF h]
  have nd: "\<not> rebuild_due demo_cfg demo_storage" by (simp add: rebuild_due_def fp_counter_def demo_storage_def u32_def)
  have k: "(0::int) \<le> 0" "0 < st_flightplan_entries demo_storage" by (simp_all add: demo_storage_def)
  note e = erase_index_tlb_ok[OF h(1) k]
  from m demo_calls have 1: "fp_counter demo_cfg demo_storage \<le> fp_counter demo_cfg demo_fp2_deleted"
    by blast
  from m nd demo_set_steps(1) have 2: "fp_counter demo_cfg demo_fp1 = fp_counter demo_cfg demo_storage + 1"
    by blast
  from m e have 3: "\<exists>s'. flight_plan_erase_index_tlb demo_cfg 0 demo_storage = Some (SCH_ST_OK, s')
          \<and> fp_counter demo_cfg s' = fp_counter demo_cfg demo_storage"
    by blast
  show ?thesis
    by (intro conjI h demo_calls demo_counters 1 2 3 nd demo_set_steps(1))
qed

end
